theory Spec2Isabelle
  imports Complex_Main "HOL-Library.Word"
begin

section \<open>Values read from the CSV and passed by the callbacks\<close>

text \<open>
  The dashboard (\<^verbatim>\<open>app.py\<close>) reads one CSV into the data frame \<^verbatim>\<open>df_table\<close>, derives
  columns from it once, and answers two callbacks from the prepared frame. A frame is
  modelled as the list of its rows, in the order of the file.

  Floating-point columns are modelled over the reals, with \<open>None\<close> for NaN (a missing
  value): rounding and infinities of floats are outside the model. An integer column
  is an int64 column, whose sums wrap around; integers written with more than 64 bits
  are outside the model.
\<close>

datatype error = ValueError | TypeError | IndexError

text \<open>
  A cell of a column as \<^verbatim>\<open>pd.read_csv\<close> leaves it: an integer, a float, a text, or a
  blank (NaN). A column all of whose cells are integers is an int64 column; a column of
  integers, floats and blanks is a float64 column, its integers read as floats; a column
  with a text is an object column.
\<close>

datatype cell = Int64 "64 word" | Num real | Txt string | NA

text \<open>
  The \<^verbatim>\<open>time_period\<close> column as read: integers (an int64 column) or texts (an object
  column).
\<close>

datatype period_cell = PInt int | PTxt string

text \<open>
  An argument of a callback, as the browser sends it: a number, a text or null.
  The subject filter is a list (a multi-selection) or a single text.
\<close>

datatype arg = AInt int | AStr string | ANone

datatype subjects = One string | Many "string list"

record raw_row =
  raw_subject_name :: string
  raw_characteristic_value :: string
  raw_time_period :: period_cell
  raw_cols :: "string \<Rightarrow> cell"

text \<open>
  A prepared row. \<open>num\<close> holds the numeric columns by name, read as floats:
  \<^verbatim>\<open>entry_count\<close>, the six \<^verbatim>\<open>perc_*\<close> columns after \<^verbatim>\<open>pd.to_numeric\<close>, and the six
  derived \<^verbatim>\<open>abs_*\<close> columns. \<open>entry_count_i64\<close> is the 64-bit integer of the row when
  \<^verbatim>\<open>entry_count\<close> is an int64 column, and \<open>None\<close> when it is a float64 column: the type
  of a column is the same for all the rows of a frame.
\<close>

record row =
  subject_name :: string
  characteristic_value :: string
  time_period :: string
  formatted_time_period :: string
  start_year :: int
  num :: "string \<Rightarrow> real option"
  entry_count_i64 :: "64 word option"

section \<open>Library functions the code calls\<close>

text \<open>\<^verbatim>\<open>str\<close> of an integer: its decimal digits, with a minus sign when negative.\<close>

definition digit_char :: "nat \<Rightarrow> char" where
  "digit_char d = ''0123456789'' ! (d mod 10)"

function str_nat :: "nat \<Rightarrow> string" where
  "str_nat n = (if n < 10 then [digit_char n] else str_nat (n div 10) @ [digit_char (n mod 10)])"
  by pat_completeness auto
termination
  by (relation "measure id") auto

declare str_nat.simps [simp del]

definition str_int :: "int \<Rightarrow> string" where
  "str_int i = (if i < 0 then CHR ''-'' # str_nat (nat (- i)) else str_nat (nat i))"

text \<open>\<^verbatim>\<open>astype(str)\<close> on the \<^verbatim>\<open>time_period\<close> column (line 10).\<close>

definition astype_str :: "period_cell \<Rightarrow> string" where
  "astype_str c = (case c of PInt i \<Rightarrow> str_int i | PTxt s \<Rightarrow> s)"

text \<open>
  Python's \<^verbatim>\<open>int\<close>, as \<^verbatim>\<open>int(start_date)\<close> and \<^verbatim>\<open>astype(int)\<close> apply it. The parser of
  texts is not part of the repository: it is the parameter \<open>pint\<close> (\<open>None\<close> where
  \<^verbatim>\<open>int\<close> raises ValueError).
\<close>

definition py_int :: "(string \<Rightarrow> int option) \<Rightarrow> arg \<Rightarrow> error + int" where
  "py_int pint a =
     (case a of
        AInt i \<Rightarrow> Inr i
      | AStr s \<Rightarrow> (case pint s of None \<Rightarrow> Inl ValueError | Some i \<Rightarrow> Inr i)
      | ANone \<Rightarrow> Inl TypeError)"

text \<open>
  An instance of the parser for the examples: non-empty texts of ASCII decimal digits,
  on which it agrees with Python's \<^verbatim>\<open>int\<close>; every other text is rejected here.
\<close>

definition digit_val :: "char \<Rightarrow> nat option" where
  "digit_val c =
     (let n = (of_char c :: nat) in
      if 48 \<le> n \<and> n \<le> 57 then Some (n - 48) else None)"

fun digits_value :: "int \<Rightarrow> string \<Rightarrow> int option" where
  "digits_value acc [] = Some acc"
| "digits_value acc (c # cs) =
     (case digit_val c of None \<Rightarrow> None | Some d \<Rightarrow> digits_value (10 * acc + int d) cs)"

definition digits_int :: "string \<Rightarrow> int option" where
  "digits_int s = (if s = [] then None else digits_value 0 s)"

text \<open>
  \<^verbatim>\<open>pd.to_numeric(..., errors='coerce')\<close> on one cell, read as a float: a number stays, a
  blank stays missing, and a text is parsed by \<open>pnum\<close> (the parser of pandas, a
  parameter), becoming missing when it is not numeric. It never raises.
\<close>

definition to_numeric :: "(string \<Rightarrow> real option) \<Rightarrow> cell \<Rightarrow> real option" where
  "to_numeric pnum c =
     (case c of
        Int64 w \<Rightarrow> Some (real_of_int (sint w))
      | Num v \<Rightarrow> Some v
      | Txt s \<Rightarrow> pnum s
      | NA \<Rightarrow> None)"

text \<open>Float arithmetic on a cell: NaN propagates.\<close>

definition fdiv :: "real option \<Rightarrow> real \<Rightarrow> real option" where
  "fdiv a d = (case a of None \<Rightarrow> None | Some v \<Rightarrow> Some (v / d))"

definition fmul :: "real option \<Rightarrow> real option \<Rightarrow> real option" where
  "fmul a b = (case a of None \<Rightarrow> None | Some v \<Rightarrow> (case b of None \<Rightarrow> None | Some w \<Rightarrow> Some (v * w)))"

text \<open>\<^verbatim>\<open>s.split(sep)\<close> for a one-character separator.\<close>

fun split_on :: "char \<Rightarrow> string \<Rightarrow> string list" where
  "split_on sep [] = [[]]"
| "split_on sep (c # cs) =
     (if c = sep then [] # split_on sep cs
      else (case split_on sep cs of [] \<Rightarrow> [[c]] | w # ws \<Rightarrow> (c # w) # ws))"

text \<open>Collecting the results of a comprehension whose body may raise.\<close>

fun collect :: "('e + 'a) list \<Rightarrow> 'e + 'a list" where
  "collect [] = Inr []"
| "collect (x # xs) =
     (case x of
        Inl e \<Rightarrow> Inl e
      | Inr v \<Rightarrow> (case collect xs of Inl e \<Rightarrow> Inl e | Inr vs \<Rightarrow> Inr (v # vs)))"

section \<open>Preparing the data frame (lines 10 to 26)\<close>

definition percentage_columns :: "string list" where
  "percentage_columns =
     [''perc_astar_grade_achieved'',
      ''perc_astar_a_grade_achieved'',
      ''perc_astar_b_grade_achieved'',
      ''perc_astar_c_grade_achieved'',
      ''perc_astar_d_grade_achieved'',
      ''perc_astar_e_grade_achieved'']"

text \<open>
  \<^verbatim>\<open>f"abs_{col.split('_')[1]}_{col.split('_')[2]}_grade_achieved"\<close>; an index out of range
  raises IndexError.
\<close>

definition abs_col_name :: "string \<Rightarrow> error + string" where
  "abs_col_name col =
     (let parts = split_on CHR ''_'' col in
      if length parts < 3 then Inl IndexError
      else Inr (''abs_'' @ parts ! 1 @ ''_'' @ parts ! 2 @ ''_grade_achieved''))"

definition abs_columns :: "error + string list" where
  "abs_columns = collect (map abs_col_name percentage_columns)"

text \<open>
  Lines 10 to 12 on one row: the period as text, its display form, and the start year
  (\<^verbatim>\<open>astype(int)\<close> raises ValueError on a text that is not an integer).
\<close>

definition period_fields :: "(string \<Rightarrow> int option) \<Rightarrow> raw_row \<Rightarrow> error + (string \<times> string \<times> int)" where
  "period_fields pint r =
     (let tp = astype_str (raw_time_period r) in
      case pint (take 4 tp) of
        None \<Rightarrow> Inl ValueError
      | Some y \<Rightarrow> Inr (tp, take 4 tp @ ''/'' @ drop 4 tp, y))"

text \<open>
  \<^verbatim>\<open>entry_count\<close> is used as read. In a numeric column a cell is a number or missing; a
  text there makes the multiplication of line 26 raise TypeError for the whole column.
  \<open>cell_num\<close> is the cell as a float, \<open>cell_int\<close> the cell of an int64 column.
\<close>

definition cell_num :: "cell \<Rightarrow> real option" where
  "cell_num c =
     (case c of
        Int64 w \<Rightarrow> Some (real_of_int (sint w))
      | Num v \<Rightarrow> Some v
      | Txt s \<Rightarrow> None
      | NA \<Rightarrow> None)"

definition cell_int :: "cell \<Rightarrow> 64 word option" where
  "cell_int c = (case c of Int64 w \<Rightarrow> Some w | Num v \<Rightarrow> None | Txt s \<Rightarrow> None | NA \<Rightarrow> None)"

definition is_txt :: "cell \<Rightarrow> bool" where
  "is_txt c = (case c of Txt s \<Rightarrow> True | Int64 w \<Rightarrow> False | Num v \<Rightarrow> False | NA \<Rightarrow> False)"

definition is_int64 :: "cell \<Rightarrow> bool" where
  "is_int64 c = (case c of Int64 w \<Rightarrow> True | Num v \<Rightarrow> False | Txt s \<Rightarrow> False | NA \<Rightarrow> False)"

text \<open>
  One pass of the loop of lines 23 to 26 on the numeric columns of one row: the
  percentage column is coerced, and the absolute column is computed from it.
\<close>

definition derive_col :: "(string \<Rightarrow> real option) \<Rightarrow> raw_row \<Rightarrow> string \<times> string \<Rightarrow>
    (string \<Rightarrow> real option) \<Rightarrow> (string \<Rightarrow> real option)" where
  "derive_col pnum r ca m =
     (let col = fst ca; abs_col = snd ca;
          m1 = m(col := to_numeric pnum (raw_cols r col))
      in m1(abs_col := fmul (fdiv (m1 col) 100) (m1 ''entry_count'')))"

definition derive_cols :: "(string \<Rightarrow> real option) \<Rightarrow> string list \<Rightarrow> raw_row \<Rightarrow> (string \<Rightarrow> real option)" where
  "derive_cols pnum abs_names r =
     fold (derive_col pnum r) (zip percentage_columns abs_names)
       ((\<lambda>c. None)(''entry_count'' := cell_num (raw_cols r ''entry_count'')))"

definition prepare_row :: "(string \<Rightarrow> real option) \<Rightarrow> string list \<Rightarrow> bool \<Rightarrow> raw_row \<Rightarrow> string \<times> string \<times> int \<Rightarrow> row" where
  "prepare_row pnum abs_names i64 r pf =
     \<lparr>subject_name = raw_subject_name r,
      characteristic_value = raw_characteristic_value r,
      time_period = fst pf,
      formatted_time_period = fst (snd pf),
      start_year = snd (snd pf),
      num = derive_cols pnum abs_names r,
      entry_count_i64 = (if i64 then cell_int (raw_cols r ''entry_count'') else None)\<rparr>"

text \<open>
  Lines 10 to 26 on the whole frame. The column operations of pandas work cell by cell,
  so the frame is prepared row by row; what raises for a column raises for the frame:
  first the start years (line 12), then the multiplication by \<^verbatim>\<open>entry_count\<close> (line 26).
  \<^verbatim>\<open>entry_count\<close> is an int64 column when every cell of it is an integer.
\<close>

definition prepare :: "(string \<Rightarrow> int option) \<Rightarrow> (string \<Rightarrow> real option) \<Rightarrow> raw_row list \<Rightarrow> error + row list" where
  "prepare pint pnum raws =
     (case collect (map (period_fields pint) raws) of
        Inl e \<Rightarrow> Inl e
      | Inr pfs \<Rightarrow>
          (case abs_columns of
             Inl e \<Rightarrow> Inl e
           | Inr abs_names \<Rightarrow>
               if list_ex (\<lambda>r. is_txt (raw_cols r ''entry_count'')) raws then Inl TypeError
               else Inr (map2 (prepare_row pnum abs_names
                           (list_all (\<lambda>r. is_int64 (raw_cols r ''entry_count'')) raws)) raws pfs)))"

section \<open>The filter shared by the two callbacks\<close>

text \<open>
  \<^verbatim>\<open>Series.isin(values)\<close> raises TypeError unless \<open>values\<close> is list-like; a single text
  is not.
\<close>

definition isin_values :: "subjects \<Rightarrow> error + string list" where
  "isin_values subj = (case subj of One s \<Rightarrow> Inl TypeError | Many xs \<Rightarrow> Inr xs)"

definition row_matches :: "int \<Rightarrow> int \<Rightarrow> string \<Rightarrow> string list \<Rightarrow> row \<Rightarrow> bool" where
  "row_matches lo hi ch xs r \<longleftrightarrow>
     start_year r \<ge> lo \<and> start_year r \<le> hi \<and> characteristic_value r = ch \<and> subject_name r \<in> set xs"

text \<open>
  The boolean mask of lines 117 to 122 (and 162 to 167): \<^verbatim>\<open>int(start_date)\<close>, then
  \<^verbatim>\<open>int(end_date)\<close>, then \<^verbatim>\<open>isin\<close> are evaluated, each of which may raise.
\<close>

definition filter_rows :: "(string \<Rightarrow> int option) \<Rightarrow> row list \<Rightarrow> arg \<Rightarrow> arg \<Rightarrow> string \<Rightarrow> subjects \<Rightarrow> error + row list" where
  "filter_rows pint df start_date end_date ch subj =
     (case py_int pint start_date of
        Inl e \<Rightarrow> Inl e
      | Inr lo \<Rightarrow>
          (case py_int pint end_date of
             Inl e \<Rightarrow> Inl e
           | Inr hi \<Rightarrow>
               (case isin_values subj of
                  Inl e \<Rightarrow> Inl e
                | Inr xs \<Rightarrow> Inr (filter (row_matches lo hi ch xs) df))))"

section \<open>Grouping by start year\<close>

text \<open>\<^verbatim>\<open>groupby('start_year')\<close>: the distinct keys in ascending order, and the rows of a key.\<close>

definition group_keys :: "row list \<Rightarrow> int list" where
  "group_keys rs = sort (remdups (map start_year rs))"

definition group_rows :: "int \<Rightarrow> row list \<Rightarrow> row list" where
  "group_rows y rs = filter (\<lambda>r. start_year r = y) rs"

text \<open>The values that are not missing.\<close>

fun present :: "real option list \<Rightarrow> real list" where
  "present [] = []"
| "present (None # vs) = present vs"
| "present (Some v # vs) = v # present vs"

text \<open>\<^verbatim>\<open>mean()\<close> skips missing values and is missing for a group without a value.\<close>

definition mean_skipna :: "real option list \<Rightarrow> real option" where
  "mean_skipna vs =
     (let xs = present vs in
      if xs = [] then None else Some (sum_list xs / real (length xs)))"

text \<open>\<^verbatim>\<open>sum()\<close> of floats skips missing values and is 0 for a group without a value.\<close>

definition sum_skipna :: "real option list \<Rightarrow> real" where
  "sum_skipna vs = sum_list (present vs)"

definition column_values :: "string \<Rightarrow> row list \<Rightarrow> real option list" where
  "column_values c rs = map (\<lambda>r. num r c) rs"

text \<open>
  \<^verbatim>\<open>sum()\<close> of \<^verbatim>\<open>entry_count\<close> over the rows of a group: an int64 column is summed in
  64-bit integers, which wrap around; a float64 column is summed in floats.
\<close>

definition sum_entry_count :: "row list \<Rightarrow> real" where
  "sum_entry_count rs =
     (if list_all (\<lambda>r. entry_count_i64 r \<noteq> None) rs
      then real_of_int (sint (sum_list (map (\<lambda>r. the (entry_count_i64 r)) rs)))
      else sum_skipna (column_values ''entry_count'' rs))"

text \<open>
  \<^verbatim>\<open>filtered_df[['start_year'] + all_columns].groupby('start_year').mean()\<close>: one line per
  year, holding the mean of every selected column, in the order of the columns.
\<close>

definition groupby_mean :: "string list \<Rightarrow> row list \<Rightarrow> (int \<times> real option list) list" where
  "groupby_mean cols rs =
     map (\<lambda>y. (y, map (\<lambda>c. mean_skipna (column_values c (group_rows y rs))) cols)) (group_keys rs)"

section \<open>The table callback (lines 115 to 144)\<close>

text \<open>
  A record of \<^verbatim>\<open>to_dict('records')\<close>: the key \<^verbatim>\<open>Indicator\<close> and one key per year column.
\<close>

record table_row =
  Indicator :: string
  cells :: "(string \<times> real option) list"

record column_spec =
  col_name :: string
  col_id :: string

text \<open>
  \<^verbatim>\<open>.T.reset_index()\<close>, the renaming of \<^verbatim>\<open>index\<close> to \<^verbatim>\<open>Indicator\<close>, the column names
  mapped with \<^verbatim>\<open>str\<close>, and \<^verbatim>\<open>to_dict('records')\<close>: the record of the \<open>i\<close>-th selected column
  holds, for every year, the \<open>i\<close>-th mean of that year.
\<close>

definition pivot_records :: "string list \<Rightarrow> (int \<times> real option list) list \<Rightarrow> table_row list" where
  "pivot_records cols g =
     map (\<lambda>ic. \<lparr>Indicator = snd ic, cells = map (\<lambda>ym. (str_int (fst ym), snd ym ! fst ic)) g\<rparr>)
       (enumerate 0 cols)"

definition pivot_columns :: "(int \<times> real option list) list \<Rightarrow> string list" where
  "pivot_columns g = ''Indicator'' # map (\<lambda>ym. str_int (fst ym)) g"

definition selected_columns :: "string \<Rightarrow> error + string list" where
  "selected_columns indicator_type =
     (if indicator_type = ''percentage'' then Inr percentage_columns else abs_columns)"

definition update_table :: "(string \<Rightarrow> int option) \<Rightarrow> row list \<Rightarrow> arg \<Rightarrow> arg \<Rightarrow> string \<Rightarrow> string \<Rightarrow> subjects \<Rightarrow>
    error + (table_row list \<times> column_spec list)" where
  "update_table pint df_table start_date end_date indicator_type selected_characteristic selected_subject =
     (case filter_rows pint df_table start_date end_date selected_characteristic selected_subject of
        Inl e \<Rightarrow> Inl e
      | Inr filtered_df \<Rightarrow>
          (case selected_columns indicator_type of
             Inl e \<Rightarrow> Inl e
           | Inr sel \<Rightarrow>
               (let all_columns = ''entry_count'' # sel;
                    g = groupby_mean all_columns filtered_df;
                    table_data = pivot_records all_columns g;
                    table_columns = map (\<lambda>c. \<lparr>col_name = c, col_id = c\<rparr>) (pivot_columns g)
                in Inr (table_data, table_columns))))"

section \<open>The line chart callback (lines 156 to 192)\<close>

record trace =
  trace_x :: "int list"
  trace_y :: "real list"
  trace_type :: string
  trace_name :: string

record figure =
  fig_data :: "trace list"
  fig_title :: string
  fig_xaxis_title :: string
  fig_yaxis_title :: string
  fig_template :: string

text \<open>Lines 158 and 159: a single subject becomes a list of one.\<close>

definition as_list :: "subjects \<Rightarrow> string list" where
  "as_list subj = (case subj of One s \<Rightarrow> [s] | Many xs \<Rightarrow> xs)"

text \<open>
  The body of the loop of lines 171 to 181:
  \<^verbatim>\<open>subject_df.groupby('start_year', as_index=False)['entry_count'].sum()\<close> gives one line
  per year in ascending order.
\<close>

definition make_trace :: "string \<Rightarrow> row list \<Rightarrow> string \<Rightarrow> trace" where
  "make_trace selected_characteristic filtered_df subject =
     (let subject_df = filter (\<lambda>r. subject_name r = subject) filtered_df;
          years = group_keys subject_df
      in \<lparr>trace_x = years,
          trace_y = map (\<lambda>y. sum_entry_count (group_rows y subject_df)) years,
          trace_type = ''line'',
          trace_name = subject @ '' ('' @ selected_characteristic @ '')''\<rparr>)"

definition update_line_chart :: "(string \<Rightarrow> int option) \<Rightarrow> row list \<Rightarrow> arg \<Rightarrow> arg \<Rightarrow> subjects \<Rightarrow> string \<Rightarrow> error + figure" where
  "update_line_chart pint df_table start_date end_date selected_subjects selected_characteristic =
     (let subjects_list = as_list selected_subjects in
      case filter_rows pint df_table start_date end_date selected_characteristic (Many subjects_list) of
        Inl e \<Rightarrow> Inl e
      | Inr filtered_df \<Rightarrow>
          Inr \<lparr>fig_data = map (make_trace selected_characteristic filtered_df) subjects_list,
               fig_title = ''Entries Count Over Time for Selected Subjects ('' @ selected_characteristic @ '')'',
               fig_xaxis_title = ''Year'',
               fig_yaxis_title = ''Entry Count'',
               fig_template = ''plotly_white''\<rparr>)"

section \<open>Constants and data of the examples\<close>

text \<open>The six names that lines 25 and 129 compute from \<open>percentage_columns\<close>.\<close>

definition abs_column_names :: "string list" where
  "abs_column_names =
     [''abs_astar_grade_grade_achieved'',
      ''abs_astar_a_grade_achieved'',
      ''abs_astar_b_grade_achieved'',
      ''abs_astar_c_grade_achieved'',
      ''abs_astar_d_grade_achieved'',
      ''abs_astar_e_grade_achieved'']"

text \<open>
  A line of the CSV: 200 entries in 2021/22, 10 percent at A*, and a text that is not a
  number in the A*-A column.
\<close>

definition example_raw :: raw_row where
  "example_raw =
     \<lparr>raw_subject_name = ''Mathematics'',
      raw_characteristic_value = ''All Students'',
      raw_time_period = PInt 202122,
      raw_cols = (\<lambda>c. NA)(''entry_count'' := Int64 200,
                          ''perc_astar_grade_achieved'' := Num 10,
                          ''perc_astar_a_grade_achieved'' := Txt ''z'')\<rparr>"

text \<open>The same line with a blank \<^verbatim>\<open>entry_count\<close>.\<close>

definition example_blank :: raw_row where
  "example_blank =
     \<lparr>raw_subject_name = ''Mathematics'',
      raw_characteristic_value = ''All Students'',
      raw_time_period = PInt 202122,
      raw_cols = (\<lambda>c. NA)(''perc_astar_grade_achieved'' := Num 10)\<rparr>"

text \<open>
  The rows of the example of the specification: Mathematics, All Students, the years
  2019 to 2021, with 100, 120 and 110 entries and 10, 12 and 11 percent at A*.
\<close>

definition example_row :: "int \<Rightarrow> string \<Rightarrow> 64 word \<Rightarrow> real option \<Rightarrow> row" where
  "example_row y tp e p =
     \<lparr>subject_name = ''Mathematics'',
      characteristic_value = ''All Students'',
      time_period = tp,
      formatted_time_period = take 4 tp @ ''/'' @ drop 4 tp,
      start_year = y,
      num = (\<lambda>c. None)(''entry_count'' := Some (real_of_int (sint e)),
                        ''perc_astar_grade_achieved'' := p,
                        ''abs_astar_grade_grade_achieved'' :=
                          (case p of None \<Rightarrow> None | Some v \<Rightarrow> Some (v / 100 * real_of_int (sint e)))),
      entry_count_i64 = Some e\<rparr>"

definition example_df :: "row list" where
  "example_df =
     [example_row 2019 ''201920'' 100 (Some 10),
      example_row 2020 ''202021'' 120 (Some 12),
      example_row 2021 ''202122'' 110 (Some 11)]"

text \<open>
  The same rows with a second line for 2019, whose percentage is missing, to tell a sum
  from a mean and a skipped value from a zero.
\<close>

definition example_entries :: "row list" where
  "example_entries = example_row 2019 ''201920'' 40 None # example_df"



section \<open>Facts about the library functions\<close>

lemma abs_columns_names: "abs_columns = Inr abs_column_names"
  by (simp add: abs_columns_def percentage_columns_def abs_col_name_def abs_column_names_def)

lemma collect_Inr: "collect xs = Inr ys \<Longrightarrow> xs = map Inr ys"
  by (induction xs arbitrary: ys) (auto split: sum.splits)

lemma collect_map_Inr: "collect (map Inr ys) = Inr ys"
  by (induction ys) auto

section \<open>Facts about the preparation\<close>

lemma prepare_Inr:
  assumes "prepare pint pnum raws = Inr df"
  obtains pfs names where "map (period_fields pint) raws = map Inr pfs" "abs_columns = Inr names"
    "\<not> list_ex (\<lambda>r. is_txt (raw_cols r ''entry_count'')) raws"
    "df = map2 (prepare_row pnum names (list_all (\<lambda>r. is_int64 (raw_cols r ''entry_count'')) raws)) raws pfs"
  using assms unfolding prepare_def
  by (auto split: sum.splits if_splits dest: collect_Inr)

lemma prepare_nth:
  assumes "prepare pint pnum raws = Inr df" and "i < length df"
  shows "i < length raws \<and> length df = length raws
       \<and> \<not> is_txt (raw_cols (raws ! i) ''entry_count'')
       \<and> (\<exists>pf names. period_fields pint (raws ! i) = Inr pf \<and> abs_columns = Inr names
             \<and> df ! i = prepare_row pnum names (list_all (\<lambda>r. is_int64 (raw_cols r ''entry_count'')) raws) (raws ! i) pf)"
proof -
  from assms(1) obtain pfs names where m: "map (period_fields pint) raws = map Inr pfs"
    and n: "abs_columns = Inr names"
    and t: "\<not> list_ex (\<lambda>r. is_txt (raw_cols r ''entry_count'')) raws"
    and d: "df = map2 (prepare_row pnum names (list_all (\<lambda>r. is_int64 (raw_cols r ''entry_count'')) raws)) raws pfs"
    by (rule prepare_Inr)
  from m have len: "length pfs = length raws" by (metis length_map)
  with d assms(2) have i: "i < length raws" by simp
  from m i len have "period_fields pint (raws ! i) = Inr (pfs ! i)"
    by (metis nth_map)
  moreover from d i len
  have "df ! i = prepare_row pnum names (list_all (\<lambda>r. is_int64 (raw_cols r ''entry_count'')) raws) (raws ! i) (pfs ! i)"
    by simp
  moreover from d len have "length df = length raws" by simp
  moreover from t i have "\<not> is_txt (raw_cols (raws ! i) ''entry_count'')"
    by (auto simp: list_ex_iff)
  ultimately show ?thesis using i n by blast
qed

lemma derive_col_apply:
  "derive_col pnum r (col, a) m k =
     (if k = a then fmul (fdiv (to_numeric pnum (raw_cols r col)) 100)
                      (if col = ''entry_count'' then to_numeric pnum (raw_cols r col) else m ''entry_count'')
      else if k = col then to_numeric pnum (raw_cols r col) else m k)"
  by (simp add: derive_col_def Let_def)

lemma fold_derive_other:
  "k \<notin> fst ` set cas \<Longrightarrow> k \<notin> snd ` set cas \<Longrightarrow> fold (derive_col pnum r) cas m k = m k"
proof (induction cas arbitrary: m)
  case Nil
  then show ?case by simp
next
  case (Cons ca cas)
  obtain c a where ca: "ca = (c, a)" by (cases ca)
  let ?m = "derive_col pnum r (c, a) m"
  from Cons.prems have k: "k \<noteq> c" "k \<noteq> a" and rest: "k \<notin> fst ` set cas" "k \<notin> snd ` set cas"
    by (auto simp: ca)
  have step: "?m k = m k"
    using k by (simp add: derive_col_apply)
  have "fold (derive_col pnum r) cas ?m k = ?m k"
    using rest by (rule Cons.IH)
  then show ?case by (simp add: ca step)
qed

lemma fold_derive_member:
  assumes "(pc, ac) \<in> set cas" and "distinct (map fst cas @ map snd cas)"
    and "''entry_count'' \<notin> fst ` set cas" and "''entry_count'' \<notin> snd ` set cas"
  shows "fold (derive_col pnum r) cas m pc = to_numeric pnum (raw_cols r pc)
       \<and> fold (derive_col pnum r) cas m ac = fmul (fdiv (to_numeric pnum (raw_cols r pc)) 100) (m ''entry_count'')"
  using assms
proof (induction cas arbitrary: m)
  case Nil
  then show ?case by simp
next
  case (Cons ca cas)
  obtain c a where ca: "ca = (c, a)" by (cases ca)
  let ?m = "derive_col pnum r (c, a) m"
  from Cons.prems ca have ne: "c \<noteq> ''entry_count''" "a \<noteq> ''entry_count''" "c \<noteq> a" by auto
  have e: "?m ''entry_count'' = m ''entry_count''"
    using ne by (simp add: derive_col_apply)
  show ?case
  proof (cases "(pc, ac) = (c, a)")
    case True
    from Cons.prems ca have "c \<notin> fst ` set cas" "c \<notin> snd ` set cas" "a \<notin> fst ` set cas" "a \<notin> snd ` set cas"
      by (auto simp: image_iff)
    then have "fold (derive_col pnum r) cas ?m c = ?m c" "fold (derive_col pnum r) cas ?m a = ?m a"
      by (simp_all add: fold_derive_other)
    moreover have "?m c = to_numeric pnum (raw_cols r c)"
      "?m a = fmul (fdiv (to_numeric pnum (raw_cols r c)) 100) (m ''entry_count'')"
      using ne by (simp_all add: derive_col_apply)
    ultimately show ?thesis using True by (simp add: ca)
  next
    case False
    with Cons.prems ca have "(pc, ac) \<in> set cas" by auto
    moreover from Cons.prems ca have "distinct (map fst cas @ map snd cas)"
      "''entry_count'' \<notin> fst ` set cas" "''entry_count'' \<notin> snd ` set cas" by auto
    ultimately have "fold (derive_col pnum r) cas ?m pc = to_numeric pnum (raw_cols r pc)
       \<and> fold (derive_col pnum r) cas ?m ac = fmul (fdiv (to_numeric pnum (raw_cols r pc)) 100) (?m ''entry_count'')"
      by (rule Cons.IH)
    then show ?thesis by (simp add: ca e)
  qed
qed

lemma columns_distinct:
  "distinct (map fst (zip percentage_columns abs_column_names) @ map snd (zip percentage_columns abs_column_names))"
  "''entry_count'' \<notin> fst ` set (zip percentage_columns abs_column_names)"
  "''entry_count'' \<notin> snd ` set (zip percentage_columns abs_column_names)"
  by (simp_all add: percentage_columns_def abs_column_names_def)

lemma derive_cols_entry: "derive_cols pnum abs_column_names r ''entry_count'' = cell_num (raw_cols r ''entry_count'')"
  unfolding derive_cols_def by (simp add: fold_derive_other columns_distinct)

lemma derive_cols_member: "(pc, ac) \<in> set (zip percentage_columns abs_column_names) \<Longrightarrow>
   derive_cols pnum abs_column_names r pc = to_numeric pnum (raw_cols r pc) \<and>
   derive_cols pnum abs_column_names r ac = fmul (fdiv (to_numeric pnum (raw_cols r pc)) 100) (cell_num (raw_cols r ''entry_count''))"
  unfolding derive_cols_def using fold_derive_member [OF _ columns_distinct, of pc ac pnum r] by simp


lemma prepare_row_at:
  assumes "prepare pint pnum raws = Inr df" and "i < length df"
  shows "i < length raws \<and> \<not> is_txt (raw_cols (raws ! i) ''entry_count'')
       \<and> (\<exists>pf. period_fields pint (raws ! i) = Inr pf
             \<and> df ! i = prepare_row pnum abs_column_names
                          (list_all (\<lambda>r. is_int64 (raw_cols r ''entry_count'')) raws) (raws ! i) pf)"
  using prepare_nth [OF assms] by (auto simp: abs_columns_names)

lemma prepare_entry_count_i64:
  assumes "prepare pint pnum raws = Inr df" and "i < length df"
  shows "entry_count_i64 (df ! i) =
           (if \<forall>r \<in> set raws. \<exists>w. raw_cols r ''entry_count'' = Int64 w
            then (case raw_cols (raws ! i) ''entry_count'' of
                    Int64 w \<Rightarrow> Some w | Num v \<Rightarrow> None | Txt s \<Rightarrow> None | NA \<Rightarrow> None)
            else None)"
proof -
  from prepare_row_at [OF assms] obtain pf where
    d: "df ! i = prepare_row pnum abs_column_names
                          (list_all (\<lambda>r. is_int64 (raw_cols r ''entry_count'')) raws) (raws ! i) pf"
    by blast
  have "\<And>c. is_int64 c \<longleftrightarrow> (\<exists>w. c = Int64 w)"
    by (case_tac c) (simp_all add: is_int64_def)
  then have eq: "list_all (\<lambda>r. is_int64 (raw_cols r ''entry_count'')) raws
      \<longleftrightarrow> (\<forall>r \<in> set raws. \<exists>w. raw_cols r ''entry_count'' = Int64 w)"
    by (simp add: list_all_iff)
  show ?thesis
  proof (cases "\<forall>r \<in> set raws. \<exists>w. raw_cols r ''entry_count'' = Int64 w")
    case True
    with eq have "list_all (\<lambda>r. is_int64 (raw_cols r ''entry_count'')) raws" by simp
    then have "entry_count_i64 (df ! i) = cell_int (raw_cols (raws ! i) ''entry_count'')"
      by (simp add: d prepare_row_def)
    then show ?thesis by (simp only: if_P [OF True] cell_int_def)
  next
    case False
    with eq have "\<not> list_all (\<lambda>r. is_int64 (raw_cols r ''entry_count'')) raws" by simp
    then have "entry_count_i64 (df ! i) = None"
      by (simp add: d prepare_row_def)
    then show ?thesis by (simp only: if_not_P [OF False])
  qed
qed

lemma prepare_same_type:
  assumes "prepare pint pnum raws = Inr df"
  shows "(\<forall>r \<in> set df. entry_count_i64 r \<noteq> None) \<or> (\<forall>r \<in> set df. entry_count_i64 r = None)"
proof (cases "list_all (\<lambda>r. is_int64 (raw_cols r ''entry_count'')) raws")
  case True
  have "\<forall>r \<in> set df. entry_count_i64 r \<noteq> None"
  proof
    fix r assume "r \<in> set df"
    then obtain i where i: "i < length df" and r: "r = df ! i" by (auto simp: in_set_conv_nth)
    from prepare_row_at [OF assms i] obtain pf where
      l: "i < length raws" and d: "df ! i = prepare_row pnum abs_column_names True (raws ! i) pf"
      using True by auto
    from True l have "is_int64 (raw_cols (raws ! i) ''entry_count'')"
      by (simp add: list_all_length)
    then show "entry_count_i64 r \<noteq> None"
      by (simp add: r d prepare_row_def cell_int_def is_int64_def split: cell.splits)
  qed
  then show ?thesis ..
next
  case False
  have "\<forall>r \<in> set df. entry_count_i64 r = None"
  proof
    fix r assume "r \<in> set df"
    then obtain i where i: "i < length df" and r: "r = df ! i" by (auto simp: in_set_conv_nth)
    from prepare_row_at [OF assms i] obtain pf where
      "df ! i = prepare_row pnum abs_column_names False (raws ! i) pf"
      using False by auto
    then show "entry_count_i64 r = None"
      by (simp add: r prepare_row_def)
  qed
  then show ?thesis ..
qed

lemma str_int_202122: "str_int 202122 = ''202122''"
  by (simp add: str_int_def str_nat.simps digit_char_def)

lemma prepare_example:
  "prepare digits_int (\<lambda>s. None) [example_raw] =
     Inr [prepare_row (\<lambda>s. None) abs_column_names True example_raw (''202122'', ''2021/22'', 2021)]"
  by (simp add: prepare_def period_fields_def astype_str_def example_raw_def str_int_202122
      digits_int_def digit_val_def abs_columns_names is_txt_def is_int64_def)

lemma prepare_example_blank:
  "prepare digits_int (\<lambda>s. None) [example_blank] =
     Inr [prepare_row (\<lambda>s. None) abs_column_names False example_blank (''202122'', ''2021/22'', 2021)]"
  by (simp add: prepare_def period_fields_def astype_str_def example_blank_def str_int_202122
      digits_int_def digit_val_def abs_columns_names is_txt_def is_int64_def)

text \<open>
  Claim C1, as stated, does not hold: \<^verbatim>\<open>entry_count\<close> is used as read, so in a row whose
  \<^verbatim>\<open>entry_count\<close> is blank the absolute column is missing although the percentage is a
  number.
\<close>

theorem abs_missing_for_blank_entry_count:
  "\<not> isl (prepare digits_int (\<lambda>s. None) [example_blank])
   \<and> num (projr (prepare digits_int (\<lambda>s. None) [example_blank]) ! 0) ''perc_astar_grade_achieved'' = Some 10
   \<and> num (projr (prepare digits_int (\<lambda>s. None) [example_blank]) ! 0) ''entry_count'' = None
   \<and> num (projr (prepare digits_int (\<lambda>s. None) [example_blank]) ! 0) ''abs_astar_grade_grade_achieved'' = None"
proof -
  have m: "(''perc_astar_grade_achieved'', ''abs_astar_grade_grade_achieved'') \<in> set (zip percentage_columns abs_column_names)"
    by (simp add: percentage_columns_def abs_column_names_def)
  show ?thesis
    unfolding prepare_example_blank
    using derive_cols_member [OF m, of "\<lambda>s. None" example_blank]
    by (simp add: prepare_row_def derive_cols_entry cell_num_def to_numeric_def fmul_def fdiv_def
        example_blank_def)
qed

text \<open>
  Claim C1, amended. In a prepared row, for each of the six grade bands, the percentage
  column is the coerced cell (a number stays, a text that is not numeric and a blank
  become missing, nothing raises) and \<^verbatim>\<open>entry_count\<close> is the cell as read, a number or
  missing. The absolute column equals \<open>perc / 100 * entry_count\<close> whenever both are
  numbers, and it is missing if and only if the percentage or \<^verbatim>\<open>entry_count\<close> is
  missing.
\<close>

theorem abs_from_perc_and_entry_count:
  assumes "prepare pint pnum raws = Inr df" and "i < length df"
    and "(pc, ac) \<in> set (zip percentage_columns abs_column_names)"
  shows "num (df ! i) pc =
           (case raw_cols (raws ! i) pc of
              Int64 w \<Rightarrow> Some (real_of_int (sint w))
            | Num v \<Rightarrow> Some v
            | Txt s \<Rightarrow> pnum s
            | NA \<Rightarrow> None)
       \<and> num (df ! i) ''entry_count'' =
           (case raw_cols (raws ! i) ''entry_count'' of
              Int64 w \<Rightarrow> Some (real_of_int (sint w))
            | Num v \<Rightarrow> Some v
            | Txt s \<Rightarrow> None
            | NA \<Rightarrow> None)
       \<and> (\<forall>s. raw_cols (raws ! i) ''entry_count'' \<noteq> Txt s)
       \<and> (\<forall>p e. num (df ! i) pc = Some p \<longrightarrow> num (df ! i) ''entry_count'' = Some e \<longrightarrow>
             num (df ! i) ac = Some (p / 100 * e))
       \<and> (num (df ! i) ac = None \<longleftrightarrow> num (df ! i) pc = None \<or> num (df ! i) ''entry_count'' = None)"
proof -
  from prepare_row_at [OF assms(1,2)] obtain pf where
    t: "\<not> is_txt (raw_cols (raws ! i) ''entry_count'')"
    and d: "df ! i = prepare_row pnum abs_column_names
                          (list_all (\<lambda>r. is_int64 (raw_cols r ''entry_count'')) raws) (raws ! i) pf"
    by blast
  have n: "num (df ! i) = derive_cols pnum abs_column_names (raws ! i)"
    by (simp add: d prepare_row_def)
  note m = derive_cols_member [OF assms(3), of pnum "raws ! i"]
  have p: "num (df ! i) pc =
           (case raw_cols (raws ! i) pc of
              Int64 w \<Rightarrow> Some (real_of_int (sint w))
            | Num v \<Rightarrow> Some v
            | Txt s \<Rightarrow> pnum s
            | NA \<Rightarrow> None)"
    using m by (simp add: n to_numeric_def)
  have e: "num (df ! i) ''entry_count'' =
           (case raw_cols (raws ! i) ''entry_count'' of
              Int64 w \<Rightarrow> Some (real_of_int (sint w))
            | Num v \<Rightarrow> Some v
            | Txt s \<Rightarrow> None
            | NA \<Rightarrow> None)"
    by (simp add: n derive_cols_entry cell_num_def)
  have x: "\<forall>s. raw_cols (raws ! i) ''entry_count'' \<noteq> Txt s"
    using t by (auto simp: is_txt_def)
  have a: "num (df ! i) ac = fmul (fdiv (num (df ! i) pc) 100) (num (df ! i) ''entry_count'')"
    using m by (simp add: n derive_cols_entry)
  have f: "\<forall>p e. num (df ! i) pc = Some p \<longrightarrow> num (df ! i) ''entry_count'' = Some e \<longrightarrow>
             num (df ! i) ac = Some (p / 100 * e)"
    unfolding a by (simp add: fmul_def fdiv_def)
  have g: "num (df ! i) ac = None \<longleftrightarrow> num (df ! i) pc = None \<or> num (df ! i) ''entry_count'' = None"
    unfolding a by (simp add: fmul_def fdiv_def split: option.splits)
  from p e x f g show ?thesis by - (intro conjI; assumption)
qed

theorem abs_from_perc_and_entry_count_witness:
  "\<not> isl (prepare digits_int (\<lambda>s. None) [example_raw])
   \<and> num (projr (prepare digits_int (\<lambda>s. None) [example_raw]) ! 0) ''entry_count'' = Some 200
   \<and> num (projr (prepare digits_int (\<lambda>s. None) [example_raw]) ! 0) ''perc_astar_grade_achieved'' = Some 10
   \<and> num (projr (prepare digits_int (\<lambda>s. None) [example_raw]) ! 0) ''abs_astar_grade_grade_achieved'' = Some 20
   \<and> num (projr (prepare digits_int (\<lambda>s. None) [example_raw]) ! 0) ''perc_astar_a_grade_achieved'' = None
   \<and> num (projr (prepare digits_int (\<lambda>s. None) [example_raw]) ! 0) ''abs_astar_a_grade_achieved'' = None"
proof -
  let ?df = "[prepare_row (\<lambda>s. None) abs_column_names True example_raw (''202122'', ''2021/22'', 2021)]"
  have m1: "(''perc_astar_grade_achieved'', ''abs_astar_grade_grade_achieved'') \<in> set (zip percentage_columns abs_column_names)"
    by (simp add: percentage_columns_def abs_column_names_def)
  have m2: "(''perc_astar_a_grade_achieved'', ''abs_astar_a_grade_achieved'') \<in> set (zip percentage_columns abs_column_names)"
    by (simp add: percentage_columns_def abs_column_names_def)
  have l: "0 < length ?df" by simp
  have r0: "raw_cols ([example_raw] ! 0) ''entry_count'' = Int64 200"
    by (simp add: example_raw_def)
  have r1: "raw_cols ([example_raw] ! 0) ''perc_astar_grade_achieved'' = Num 10"
    by (simp add: example_raw_def)
  have r2: "raw_cols ([example_raw] ! 0) ''perc_astar_a_grade_achieved'' = Txt ''z''"
    by (simp add: example_raw_def)
  from abs_from_perc_and_entry_count [OF prepare_example l m1] r0 r1
  have 1: "num (?df ! 0) ''entry_count'' = Some 200"
    "num (?df ! 0) ''perc_astar_grade_achieved'' = Some 10"
    "num (?df ! 0) ''abs_astar_grade_grade_achieved'' = Some 20"
    by simp_all
  from abs_from_perc_and_entry_count [OF prepare_example l m2] r0 r2
  have 2: "num (?df ! 0) ''perc_astar_a_grade_achieved'' = None"
    "num (?df ! 0) ''abs_astar_a_grade_achieved'' = None"
    by simp_all
  from 1 2 show ?thesis
    unfolding prepare_example by simp
qed

text \<open>
  Claim C7. In a prepared row, \<^verbatim>\<open>start_year\<close> is the integer that \<^verbatim>\<open>int\<close> parses from the
  first four characters of \<^verbatim>\<open>time_period\<close>, and \<^verbatim>\<open>formatted_time_period\<close> is these four
  characters, a slash, and the remaining characters.
\<close>

theorem start_year_from_time_period:
  assumes "prepare pint pnum raws = Inr df" and "i < length df"
  shows "time_period (df ! i) = astype_str (raw_time_period (raws ! i))
       \<and> pint (take 4 (time_period (df ! i))) = Some (start_year (df ! i))
       \<and> formatted_time_period (df ! i) = take 4 (time_period (df ! i)) @ ''/'' @ drop 4 (time_period (df ! i))"
proof -
  from prepare_row_at [OF assms] obtain pf where
    p: "period_fields pint (raws ! i) = Inr pf"
    and d: "df ! i = prepare_row pnum abs_column_names
                          (list_all (\<lambda>r. is_int64 (raw_cols r ''entry_count'')) raws) (raws ! i) pf"
    by blast
  from p show ?thesis unfolding d
    by (auto simp: period_fields_def prepare_row_def Let_def split: option.splits)
qed

theorem start_year_from_time_period_witness:
  "\<exists>df. prepare digits_int (\<lambda>s. None) [example_raw] = Inr df
      \<and> time_period (df ! 0) = ''202122''
      \<and> start_year (df ! 0) = 2021
      \<and> digits_int (take 4 (time_period (df ! 0))) = Some (start_year (df ! 0))
      \<and> formatted_time_period (df ! 0) = ''2021/22''"
proof -
  let ?df = "[prepare_row (\<lambda>s. None) abs_column_names True example_raw (''202122'', ''2021/22'', 2021)]"
  have l: "0 < length ?df" by simp
  have t: "time_period (?df ! 0) = ''202122''" "start_year (?df ! 0) = 2021"
    by (simp_all add: prepare_row_def)
  from start_year_from_time_period [OF prepare_example l] t
  have "digits_int (take 4 (time_period (?df ! 0))) = Some (start_year (?df ! 0))
      \<and> formatted_time_period (?df ! 0) = ''2021/22''"
    by (simp add: digits_int_def digit_val_def)
  then show ?thesis using t prepare_example by blast
qed

section \<open>Facts about the rendering of integers\<close>

lemma digit_val_digit_char: "digit_val (digit_char d) = Some (d mod 10)"
proof -
  have "d mod 10 = 0 \<or> d mod 10 = 1 \<or> d mod 10 = 2 \<or> d mod 10 = 3 \<or> d mod 10 = 4
      \<or> d mod 10 = 5 \<or> d mod 10 = 6 \<or> d mod 10 = 7 \<or> d mod 10 = 8 \<or> d mod 10 = 9"
    by presburger
  then show ?thesis
    unfolding digit_char_def
    by (elim disjE) (simp_all add: digit_val_def)
qed

lemma digits_value_append:
  "digits_value acc (xs @ ys) = (case digits_value acc xs of None \<Rightarrow> None | Some a \<Rightarrow> digits_value a ys)"
  by (induction xs arbitrary: acc) (auto split: option.splits)

lemma digits_value_str_nat: "digits_value 0 (str_nat n) = Some (int n)"
proof (induction n rule: str_nat.induct)
  case (1 n)
  show ?case
  proof (cases "n < 10")
    case True
    then show ?thesis
      by (subst str_nat.simps) (simp add: digit_val_digit_char)
  next
    case False
    with 1 have "digits_value 0 (str_nat (n div 10)) = Some (int (n div 10))" by simp
    moreover have "10 * int (n div 10) + int (n mod 10) = int n" by presburger
    ultimately show ?thesis using False
      by (subst str_nat.simps) (simp add: digits_value_append digit_val_digit_char)
  qed
qed

lemma str_nat_not_Nil: "str_nat n \<noteq> []"
  by (subst str_nat.simps) simp

lemma digits_int_str_nat: "digits_int (str_nat n) = Some (int n)"
  by (simp add: digits_int_def str_nat_not_Nil digits_value_str_nat)

lemma digits_int_minus: "digits_int (CHR ''-'' # cs) = None"
  by (simp add: digits_int_def digit_val_def)

lemma str_int_inj: "str_int i = str_int j \<Longrightarrow> i = j"
proof -
  assume e: "str_int i = str_int j"
  have neq: "\<And>n cs. str_nat n \<noteq> CHR ''-'' # cs"
    using digits_int_str_nat digits_int_minus by (metis option.distinct(1))
  have inj: "\<And>m n. str_nat m = str_nat n \<Longrightarrow> m = n"
    using digits_int_str_nat by (metis of_nat_eq_iff option.inject)
  show "i = j"
  proof (cases "i < 0")
    case True
    note i = this
    show ?thesis
    proof (cases "j < 0")
      case True
      with i e have "str_nat (nat (- i)) = str_nat (nat (- j))" by (simp add: str_int_def)
      then have "nat (- i) = nat (- j)" by (rule inj)
      with i True show ?thesis by simp
    next
      case False
      with i e neq show ?thesis by (simp add: str_int_def) metis
    qed
  next
    case False
    note i = this
    show ?thesis
    proof (cases "j < 0")
      case True
      with i e neq show ?thesis by (simp add: str_int_def)
    next
      case False
      with i e have "str_nat (nat i) = str_nat (nat j)" by (simp add: str_int_def)
      then have "nat i = nat j" by (rule inj)
      with i False show ?thesis by simp
    qed
  qed
qed

lemma str_int_not_Indicator: "str_int y \<noteq> ''Indicator''"
proof
  assume e: "str_int y = ''Indicator''"
  show False
  proof (cases "y < 0")
    case True
    with e show False by (simp add: str_int_def)
  next
    case False
    with e have "digits_int ''Indicator'' = Some (int (nat y))"
      using digits_int_str_nat [of "nat y"] by (simp add: str_int_def)
    then show False by (simp add: digits_int_def digit_val_def)
  qed
qed

section \<open>Facts about the table callback\<close>

lemma filter_rows_Inr:
  "filter_rows pint df sd ed ch subj = Inr rs \<longleftrightarrow>
     (\<exists>lo hi xs. py_int pint sd = Inr lo \<and> py_int pint ed = Inr hi \<and> subj = Many xs
        \<and> rs = filter (row_matches lo hi ch xs) df)"
  by (cases subj) (auto simp: filter_rows_def isin_values_def split: sum.splits)

lemma group_keys_set: "set (group_keys rs) = start_year ` set rs"
  by (simp add: group_keys_def)

lemma group_keys_sorted: "sorted (group_keys rs)"
  by (simp add: group_keys_def)

lemma group_keys_distinct: "distinct (group_keys rs)"
  by (simp add: group_keys_def)

lemma group_keys_Nil: "group_keys [] = []"
  by (simp add: group_keys_def)

lemma group_rows_filter:
  "group_rows y (filter P rs) = filter (\<lambda>r. P r \<and> start_year r = y) rs"
  by (auto simp: group_rows_def intro: filter_cong)

lemma pivot_records_groupby:
  "pivot_records cols (groupby_mean cols rs) =
     map (\<lambda>c. \<lparr>Indicator = c,
                cells = map (\<lambda>y. (str_int y, mean_skipna (column_values c (group_rows y rs)))) (group_keys rs)\<rparr>) cols"
proof (rule nth_equalityI)
  show "length (pivot_records cols (groupby_mean cols rs)) = length (map (\<lambda>c. \<lparr>Indicator = c,
                cells = map (\<lambda>y. (str_int y, mean_skipna (column_values c (group_rows y rs)))) (group_keys rs)\<rparr>) cols)"
    by (simp add: pivot_records_def)
next
  fix i assume "i < length (pivot_records cols (groupby_mean cols rs))"
  then have i: "i < length cols" by (simp add: pivot_records_def)
  then show "pivot_records cols (groupby_mean cols rs) ! i = map (\<lambda>c. \<lparr>Indicator = c,
                cells = map (\<lambda>y. (str_int y, mean_skipna (column_values c (group_rows y rs)))) (group_keys rs)\<rparr>) cols ! i"
    by (simp add: pivot_records_def groupby_mean_def nth_enumerate_eq o_def)
qed

lemma pivot_columns_groupby:
  "pivot_columns (groupby_mean cols rs) = ''Indicator'' # map str_int (group_keys rs)"
  by (simp add: pivot_columns_def groupby_mean_def o_def)

lemma selected_columns_eq:
  "selected_columns ind = Inr (if ind = ''percentage'' then percentage_columns else abs_column_names)"
  by (simp add: selected_columns_def abs_columns_names)

lemma update_table_Inr:
  assumes "update_table pint df sd ed ind ch subj = Inr (data, cols)"
  obtains lo hi xs where "py_int pint sd = Inr lo" "py_int pint ed = Inr hi" "subj = Many xs"
    "data = map (\<lambda>c. \<lparr>Indicator = c,
                cells = map (\<lambda>y. (str_int y, mean_skipna (column_values c (group_rows y (filter (row_matches lo hi ch xs) df)))))
                          (group_keys (filter (row_matches lo hi ch xs) df))\<rparr>)
             (''entry_count'' # (if ind = ''percentage'' then percentage_columns else abs_column_names))"
    "cols = map (\<lambda>c. \<lparr>col_name = c, col_id = c\<rparr>) (''Indicator'' # map str_int (group_keys (filter (row_matches lo hi ch xs) df)))"
proof -
  from assms obtain rs where f: "filter_rows pint df sd ed ch subj = Inr rs"
    by (auto simp: update_table_def split: sum.splits)
  then obtain lo hi xs where a: "py_int pint sd = Inr lo" "py_int pint ed = Inr hi" "subj = Many xs"
    and rs: "rs = filter (row_matches lo hi ch xs) df"
    unfolding filter_rows_Inr by blast
  from assms f have "data = pivot_records (''entry_count'' # (if ind = ''percentage'' then percentage_columns else abs_column_names))
        (groupby_mean (''entry_count'' # (if ind = ''percentage'' then percentage_columns else abs_column_names)) rs)"
    and "cols = map (\<lambda>c. \<lparr>col_name = c, col_id = c\<rparr>) (pivot_columns (groupby_mean (''entry_count'' # (if ind = ''percentage'' then percentage_columns else abs_column_names)) rs))"
    by (simp_all add: update_table_def selected_columns_eq Let_def)
  then show thesis using a rs that
    by (simp only: pivot_records_groupby pivot_columns_groupby)
qed

lemma update_table_total:
  assumes "py_int pint sd = Inr lo" "py_int pint ed = Inr hi"
  shows "\<exists>out. update_table pint df sd ed ind ch (Many xs) = Inr out"
  using assms by (simp add: update_table_def filter_rows_def isin_values_def selected_columns_eq Let_def)


lemma update_table_eq:
  assumes "py_int pint sd = Inr lo" "py_int pint ed = Inr hi"
  shows "update_table pint df sd ed ind ch (Many xs) =
     Inr (map (\<lambda>c. \<lparr>Indicator = c,
                cells = map (\<lambda>y. (str_int y, mean_skipna (column_values c (group_rows y (filter (row_matches lo hi ch xs) df)))))
                          (group_keys (filter (row_matches lo hi ch xs) df))\<rparr>)
             (''entry_count'' # (if ind = ''percentage'' then percentage_columns else abs_column_names)),
          map (\<lambda>c. \<lparr>col_name = c, col_id = c\<rparr>) (''Indicator'' # map str_int (group_keys (filter (row_matches lo hi ch xs) df))))"
proof -
  from update_table_total [OF assms, of df ind ch xs] obtain data cols
    where u: "update_table pint df sd ed ind ch (Many xs) = Inr (data, cols)" by auto
  from u show ?thesis
    by (rule update_table_Inr) (use assms u in simp)
qed

lemma str_int_years:
  "str_int 2019 = ''2019''" "str_int 2020 = ''2020''" "str_int 2021 = ''2021''"
  by (simp_all add: str_int_def str_nat.simps digit_char_def)

lemma example_filter:
  "filter (row_matches 2019 2021 ''All Students'' [''Mathematics'']) example_df = example_df"
  by (simp add: example_df_def example_row_def row_matches_def)

lemma example_keys: "group_keys example_df = [2019, 2020, 2021]"
  by (simp add: example_df_def example_row_def group_keys_def)

lemma example_groups:
  "group_rows 2019 example_df = [example_row 2019 ''201920'' 100 (Some 10)]"
  "group_rows 2020 example_df = [example_row 2020 ''202021'' 120 (Some 12)]"
  "group_rows 2021 example_df = [example_row 2021 ''202122'' 110 (Some 11)]"
  by (simp_all add: example_df_def example_row_def group_rows_def)

lemma example_means:
  "mean_skipna (column_values ''entry_count'' [example_row y tp e p]) = Some (real_of_int (sint e))"
  "mean_skipna (column_values ''perc_astar_grade_achieved'' [example_row y tp e (Some v)]) = Some v"
  by (simp_all add: mean_skipna_def column_values_def example_row_def)

lemma example_table:
  "\<exists>data cols. update_table digits_int example_df (AInt 2019) (AInt 2021) ''percentage'' ''All Students'' (Many [''Mathematics'']) = Inr (data, cols)
        \<and> map col_name cols = [''Indicator'', ''2019'', ''2020'', ''2021'']
        \<and> Indicator (data ! 0) = ''entry_count''
        \<and> cells (data ! 0) = [(''2019'', Some 100), (''2020'', Some 120), (''2021'', Some 110)]
        \<and> Indicator (data ! 1) = ''perc_astar_grade_achieved''
        \<and> cells (data ! 1) = [(''2019'', Some 10), (''2020'', Some 12), (''2021'', Some 11)]"
proof -
  have a: "py_int digits_int (AInt 2019) = Inr 2019" "py_int digits_int (AInt 2021) = Inr 2021"
    by (simp_all add: py_int_def)
  show ?thesis
    unfolding update_table_eq [OF a] example_filter example_keys
    by (simp add: percentage_columns_def str_int_years example_groups example_means)
qed

lemma present_map:
  "present (map f rs) = map (\<lambda>r. the (f r)) (filter (\<lambda>r. f r \<noteq> None) rs)"
proof (induction rs)
  case Nil
  then show ?case by simp
next
  case (Cons r rs)
  then show ?case by (cases "f r") simp_all
qed

lemma mean_skipna_filter:
  "mean_skipna (column_values c (group_rows y (filter (row_matches lo hi ch xs) df))) =
     (let rs = filter (\<lambda>r. (lo \<le> start_year r \<and> start_year r \<le> hi \<and> characteristic_value r = ch
                          \<and> subject_name r \<in> set xs) \<and> start_year r = y \<and> num r c \<noteq> None) df
      in if rs = [] then None else Some (sum_list (map (\<lambda>r. the (num r c)) rs) / real (length rs)))"
proof -
  have "filter (\<lambda>r. num r c \<noteq> None) (group_rows y (filter (row_matches lo hi ch xs) df)) =
      filter (\<lambda>r. (lo \<le> start_year r \<and> start_year r \<le> hi \<and> characteristic_value r = ch
                          \<and> subject_name r \<in> set xs) \<and> start_year r = y \<and> num r c \<noteq> None) df"
    unfolding group_rows_def filter_filter by (rule filter_cong) (auto simp: row_matches_def)
  then show ?thesis
    by (simp add: mean_skipna_def column_values_def present_map Let_def)
qed

lemma matching_years:
  "set (group_keys (filter (row_matches lo hi ch xs) df)) =
     start_year ` {r \<in> set df. lo \<le> start_year r \<and> start_year r \<le> hi \<and> characteristic_value r = ch
                          \<and> subject_name r \<in> set xs}"
  by (auto simp: group_keys_set row_matches_def)

lemma example_entries_matching:
  "{r \<in> set example_entries. 2019 \<le> start_year r \<and> start_year r \<le> 2021
       \<and> characteristic_value r = ''All Students'' \<and> subject_name r \<in> set [''Mathematics'']}
     = set example_entries"
  by (auto simp: example_entries_def example_df_def example_row_def)

lemma example_entries_years: "start_year ` set example_entries = {2019, 2020, 2021}"
  by (auto simp: example_entries_def example_df_def example_row_def)

lemma sorted_distinct_three:
  fixes ys :: "int list"
  assumes "sorted ys" "distinct ys" "set ys = {2019, 2020, 2021}"
  shows "ys = [2019, 2020, 2021]"
proof (rule sorted_distinct_set_unique)
  show "sorted ys" "distinct ys" by fact+
  show "sorted [2019, 2020, 2021 :: int]" "distinct [2019, 2020, 2021 :: int]" by simp_all
  show "set ys = set [2019, 2020, 2021]" using assms(3) by auto
qed

text \<open>
  Claim C2. When the table callback returns, the year columns are the start years of the
  rows that match the filter (start year within the two bounds, the selected
  characteristic, a subject of the list), in ascending order and rendered with \<^verbatim>\<open>str\<close>,
  and the cell of an indicator under a year is the arithmetic mean of that column over
  the matching rows of that year whose value is not missing: their sum divided by their
  number, and missing when there is no such row. On the example of the specification
  the \<^verbatim>\<open>entry_count\<close> record is 100, 120, 110 and the \<^verbatim>\<open>perc_astar_grade_achieved\<close> record
  is 10, 12, 11 under the columns 2019, 2020, 2021.
\<close>

theorem table_cells_are_group_means:
  "(update_table pint df sd ed ind ch subj = Inr (data, cols) \<longrightarrow>
      (\<exists>lo hi xs ys. py_int pint sd = Inr lo \<and> py_int pint ed = Inr hi \<and> subj = Many xs
         \<and> sorted ys \<and> distinct ys
         \<and> set ys = start_year ` {r \<in> set df. lo \<le> start_year r \<and> start_year r \<le> hi
                                     \<and> characteristic_value r = ch \<and> subject_name r \<in> set xs}
         \<and> map col_name cols = ''Indicator'' # map str_int ys
         \<and> (\<forall>rec \<in> set data. cells rec =
               map (\<lambda>y. (str_int y,
                     (let rs = filter (\<lambda>r. (lo \<le> start_year r \<and> start_year r \<le> hi \<and> characteristic_value r = ch
                                            \<and> subject_name r \<in> set xs) \<and> start_year r = y
                                            \<and> num r (Indicator rec) \<noteq> None) df
                      in if rs = [] then None
                         else Some (sum_list (map (\<lambda>r. the (num r (Indicator rec))) rs) / real (length rs))))) ys)))
   \<and> (\<exists>data cols. update_table digits_int example_df (AInt 2019) (AInt 2021) ''percentage'' ''All Students''
                      (Many [''Mathematics'']) = Inr (data, cols)
        \<and> map col_name cols = [''Indicator'', ''2019'', ''2020'', ''2021'']
        \<and> Indicator (data ! 0) = ''entry_count''
        \<and> cells (data ! 0) = [(''2019'', Some 100), (''2020'', Some 120), (''2021'', Some 110)]
        \<and> Indicator (data ! 1) = ''perc_astar_grade_achieved''
        \<and> cells (data ! 1) = [(''2019'', Some 10), (''2020'', Some 12), (''2021'', Some 11)])"
proof (intro conjI impI)
  assume u: "update_table pint df sd ed ind ch subj = Inr (data, cols)"
  from u obtain lo hi xs where a: "py_int pint sd = Inr lo" "py_int pint ed = Inr hi" "subj = Many xs"
    and d: "data = map (\<lambda>c. \<lparr>Indicator = c,
                cells = map (\<lambda>y. (str_int y, mean_skipna (column_values c (group_rows y (filter (row_matches lo hi ch xs) df)))))
                          (group_keys (filter (row_matches lo hi ch xs) df))\<rparr>)
             (''entry_count'' # (if ind = ''percentage'' then percentage_columns else abs_column_names))"
    and c: "cols = map (\<lambda>c. \<lparr>col_name = c, col_id = c\<rparr>) (''Indicator'' # map str_int (group_keys (filter (row_matches lo hi ch xs) df)))"
    by (rule update_table_Inr)
  let ?ys = "group_keys (filter (row_matches lo hi ch xs) df)"
  have s: "sorted ?ys" and di: "distinct ?ys" by (rule group_keys_sorted, rule group_keys_distinct)
  have n: "map col_name cols = ''Indicator'' # map str_int ?ys"
    by (simp add: c o_def)
  have m: "\<forall>rec \<in> set data. cells rec =
               map (\<lambda>y. (str_int y,
                     (let rs = filter (\<lambda>r. (lo \<le> start_year r \<and> start_year r \<le> hi \<and> characteristic_value r = ch
                                            \<and> subject_name r \<in> set xs) \<and> start_year r = y
                                            \<and> num r (Indicator rec) \<noteq> None) df
                      in if rs = [] then None
                         else Some (sum_list (map (\<lambda>r. the (num r (Indicator rec))) rs) / real (length rs))))) ?ys"
  proof
    fix rec assume "rec \<in> set data"
    then obtain c where "rec = \<lparr>Indicator = c,
                cells = map (\<lambda>y. (str_int y, mean_skipna (column_values c (group_rows y (filter (row_matches lo hi ch xs) df))))) ?ys\<rparr>"
      unfolding d by (auto simp only: set_map)
    then show "cells rec =
               map (\<lambda>y. (str_int y,
                     (let rs = filter (\<lambda>r. (lo \<le> start_year r \<and> start_year r \<le> hi \<and> characteristic_value r = ch
                                            \<and> subject_name r \<in> set xs) \<and> start_year r = y
                                            \<and> num r (Indicator rec) \<noteq> None) df
                      in if rs = [] then None
                         else Some (sum_list (map (\<lambda>r. the (num r (Indicator rec))) rs) / real (length rs))))) ?ys"
      by (simp only: table_row.simps mean_skipna_filter)
  qed
  show "\<exists>lo hi xs ys. py_int pint sd = Inr lo \<and> py_int pint ed = Inr hi \<and> subj = Many xs
         \<and> sorted ys \<and> distinct ys
         \<and> set ys = start_year ` {r \<in> set df. lo \<le> start_year r \<and> start_year r \<le> hi
                                     \<and> characteristic_value r = ch \<and> subject_name r \<in> set xs}
         \<and> map col_name cols = ''Indicator'' # map str_int ys
         \<and> (\<forall>rec \<in> set data. cells rec =
               map (\<lambda>y. (str_int y,
                     (let rs = filter (\<lambda>r. (lo \<le> start_year r \<and> start_year r \<le> hi \<and> characteristic_value r = ch
                                            \<and> subject_name r \<in> set xs) \<and> start_year r = y
                                            \<and> num r (Indicator rec) \<noteq> None) df
                      in if rs = [] then None
                         else Some (sum_list (map (\<lambda>r. the (num r (Indicator rec))) rs) / real (length rs))))) ys)"
    apply (rule exI [of _ lo], rule exI [of _ hi], rule exI [of _ xs], rule exI [of _ ?ys])
    apply (intro conjI)
    apply (rule a(1), rule a(2), rule a(3), rule s, rule di, rule matching_years, rule n, rule m)
    done
next
  show "\<exists>data cols. update_table digits_int example_df (AInt 2019) (AInt 2021) ''percentage'' ''All Students''
                      (Many [''Mathematics'']) = Inr (data, cols)
        \<and> map col_name cols = [''Indicator'', ''2019'', ''2020'', ''2021'']
        \<and> Indicator (data ! 0) = ''entry_count''
        \<and> cells (data ! 0) = [(''2019'', Some 100), (''2020'', Some 120), (''2021'', Some 110)]
        \<and> Indicator (data ! 1) = ''perc_astar_grade_achieved''
        \<and> cells (data ! 1) = [(''2019'', Some 10), (''2020'', Some 12), (''2021'', Some 11)]"
    by (rule example_table)
qed


theorem table_cells_are_group_means_witness:
  "\<exists>data cols lo hi ys. update_table digits_int example_entries (AInt 2019) (AInt 2021) ''percentage''
                      ''All Students'' (Many [''Mathematics'']) = Inr (data, cols)
      \<and> py_int digits_int (AInt 2019) = Inr lo \<and> py_int digits_int (AInt 2021) = Inr hi
      \<and> sorted ys \<and> distinct ys \<and> ys = [2019, 2020, 2021]
      \<and> map col_name cols = ''Indicator'' # map str_int ys
      \<and> cells (data ! 0) = [(''2019'', Some 70), (''2020'', Some 120), (''2021'', Some 110)]
      \<and> cells (data ! 1) = [(''2019'', Some 10), (''2020'', Some 12), (''2021'', Some 11)]
      \<and> cells (data ! 2) = [(''2019'', None), (''2020'', None), (''2021'', None)]"
proof -
  have a: "py_int digits_int (AInt 2019) = Inr 2019" "py_int digits_int (AInt 2021) = Inr 2021"
    by (simp_all add: py_int_def)
  from update_table_total [OF a, of example_entries "''percentage''" "''All Students''" "[''Mathematics'']"]
  obtain data cols where
    u: "update_table digits_int example_entries (AInt 2019) (AInt 2021) ''percentage''
                      ''All Students'' (Many [''Mathematics'']) = Inr (data, cols)"
    by auto
  from u update_table_eq [OF a, of example_entries "''percentage''" "''All Students''" "[''Mathematics'']"]
  have i: "length data = 7" "Indicator (data ! 0) = ''entry_count''"
    "Indicator (data ! 1) = ''perc_astar_grade_achieved''"
    "Indicator (data ! 2) = ''perc_astar_a_grade_achieved''"
    by (auto simp: percentage_columns_def)
  from table_cells_are_group_means [of digits_int example_entries "AInt 2019" "AInt 2021" "''percentage''"
      "''All Students''" "Many [''Mathematics'']" data cols, THEN conjunct1, rule_format, OF u]
  obtain lo hi xs ys where lo: "py_int digits_int (AInt 2019) = Inr lo"
    and hi: "py_int digits_int (AInt 2021) = Inr hi"
    and xs: "Many [''Mathematics''] = Many xs"
    and so: "sorted ys" and di: "distinct ys"
    and se: "set ys = start_year ` {r \<in> set example_entries. lo \<le> start_year r \<and> start_year r \<le> hi
                                     \<and> characteristic_value r = ''All Students'' \<and> subject_name r \<in> set xs}"
    and na: "map col_name cols = ''Indicator'' # map str_int ys"
    and ce: "\<forall>rec \<in> set data. cells rec =
               map (\<lambda>y. (str_int y,
                     (let rs = filter (\<lambda>r. (lo \<le> start_year r \<and> start_year r \<le> hi \<and> characteristic_value r = ''All Students''
                                            \<and> subject_name r \<in> set xs) \<and> start_year r = y
                                            \<and> num r (Indicator rec) \<noteq> None) example_entries
                      in if rs = [] then None
                         else Some (sum_list (map (\<lambda>r. the (num r (Indicator rec))) rs) / real (length rs))))) ys"
    by (elim exE conjE) (rule that; assumption)
  from lo hi a have b: "lo = 2019" "hi = 2021" by simp_all
  from xs have x: "xs = [''Mathematics'']" by simp
  from se have "set ys = {2019, 2020, 2021}"
    unfolding b x example_entries_matching example_entries_years .
  with so di have ys: "ys = [2019, 2020, 2021]" by (rule sorted_distinct_three)
  from i(1) have m: "data ! 0 \<in> set data" "data ! 1 \<in> set data" "data ! 2 \<in> set data"
    by simp_all
  have c0: "cells (data ! 0) = [(''2019'', Some 70), (''2020'', Some 120), (''2021'', Some 110)]"
    using ce [rule_format, OF m(1)] unfolding i b x ys
    by (simp add: str_int_years example_entries_def example_df_def example_row_def)
  have c1: "cells (data ! 1) = [(''2019'', Some 10), (''2020'', Some 12), (''2021'', Some 11)]"
    using ce [rule_format, OF m(2)] unfolding i b x ys
    by (simp add: str_int_years example_entries_def example_df_def example_row_def)
  have c2: "cells (data ! 2) = [(''2019'', None), (''2020'', None), (''2021'', None)]"
    using ce [rule_format, OF m(3)] unfolding i b x ys
    by (simp add: str_int_years example_entries_def example_df_def example_row_def)
  from u lo hi so di ys na c0 c1 c2 show ?thesis by - (intro exI conjI; assumption)
qed

text \<open>
  Claim C5. When the table callback returns, every column other than \<^verbatim>\<open>Indicator\<close> is
  the rendering of a start year of the frame that lies between the two bounds, and no
  integer outside the bounds is rendered by a column or by a key of a record.
\<close>

theorem table_years_in_range:
  assumes "update_table pint df sd ed ind ch subj = Inr (data, cols)"
  shows "\<exists>lo hi. py_int pint sd = Inr lo \<and> py_int pint ed = Inr hi
     \<and> (\<forall>c \<in> set cols. col_name c = ''Indicator''
            \<or> (\<exists>y. col_name c = str_int y \<and> lo \<le> y \<and> y \<le> hi \<and> y \<in> start_year ` set df))
     \<and> (\<forall>y. str_int y \<in> col_name ` set cols \<longrightarrow> lo \<le> y \<and> y \<le> hi)
     \<and> (\<forall>rec \<in> set data. \<forall>y. str_int y \<in> fst ` set (cells rec) \<longrightarrow> lo \<le> y \<and> y \<le> hi)"
proof -
  from assms obtain lo hi xs where a: "py_int pint sd = Inr lo" "py_int pint ed = Inr hi"
    and d: "data = map (\<lambda>c. \<lparr>Indicator = c,
                cells = map (\<lambda>y. (str_int y, mean_skipna (column_values c (group_rows y (filter (row_matches lo hi ch xs) df)))))
                          (group_keys (filter (row_matches lo hi ch xs) df))\<rparr>)
             (''entry_count'' # (if ind = ''percentage'' then percentage_columns else abs_column_names))"
    and c: "cols = map (\<lambda>c. \<lparr>col_name = c, col_id = c\<rparr>) (''Indicator'' # map str_int (group_keys (filter (row_matches lo hi ch xs) df)))"
    by (rule update_table_Inr)
  let ?ys = "group_keys (filter (row_matches lo hi ch xs) df)"
  have ys: "\<And>y. y \<in> set ?ys \<Longrightarrow> lo \<le> y \<and> y \<le> hi \<and> y \<in> start_year ` set df"
    by (auto simp: group_keys_set row_matches_def)
  have names: "col_name ` set cols = insert ''Indicator'' (str_int ` set ?ys)"
    by (simp add: c image_image)
  have keys: "\<And>rec. rec \<in> set data \<Longrightarrow> fst ` set (cells rec) = str_int ` set ?ys"
    unfolding d by (auto simp: image_image)
  have inj: "\<And>y. str_int y \<in> str_int ` set ?ys \<Longrightarrow> y \<in> set ?ys"
    using str_int_inj by blast
  have 1: "\<forall>c \<in> set cols. col_name c = ''Indicator''
            \<or> (\<exists>y. col_name c = str_int y \<and> lo \<le> y \<and> y \<le> hi \<and> y \<in> start_year ` set df)"
  proof
    fix c' assume "c' \<in> set cols"
    then have "col_name c' \<in> insert ''Indicator'' (str_int ` set ?ys)"
      unfolding names [symmetric] by (rule imageI)
    then show "col_name c' = ''Indicator''
            \<or> (\<exists>y. col_name c' = str_int y \<and> lo \<le> y \<and> y \<le> hi \<and> y \<in> start_year ` set df)"
      using ys by blast
  qed
  have 2: "\<forall>y. str_int y \<in> col_name ` set cols \<longrightarrow> lo \<le> y \<and> y \<le> hi"
    unfolding names using inj ys str_int_not_Indicator by blast
  have 3: "\<forall>rec \<in> set data. \<forall>y. str_int y \<in> fst ` set (cells rec) \<longrightarrow> lo \<le> y \<and> y \<le> hi"
    using keys inj ys by blast
  from a 1 2 3 show ?thesis by blast
qed

theorem table_years_in_range_witness:
  "\<exists>data cols lo hi. update_table digits_int example_df (AInt 2019) (AInt 2021) ''percentage'' ''All Students''
                      (Many [''Mathematics'']) = Inr (data, cols)
      \<and> map col_name cols = [''Indicator'', ''2019'', ''2020'', ''2021'']
      \<and> py_int digits_int (AInt 2019) = Inr lo \<and> py_int digits_int (AInt 2021) = Inr hi
      \<and> lo \<le> 2020 \<and> 2020 \<le> hi"
proof -
  from example_table obtain data cols where
    u: "update_table digits_int example_df (AInt 2019) (AInt 2021) ''percentage'' ''All Students''
                      (Many [''Mathematics'']) = Inr (data, cols)"
    and c: "map col_name cols = [''Indicator'', ''2019'', ''2020'', ''2021'']"
    by (elim exE conjE) (rule that; assumption)
  from c have "set (map col_name cols) = {''Indicator'', ''2019'', ''2020'', ''2021''}" by simp
  then have m: "str_int 2020 \<in> col_name ` set cols"
    by (simp add: str_int_years)
  from table_years_in_range [OF u] obtain lo hi where
    p: "py_int digits_int (AInt 2019) = Inr lo" "py_int digits_int (AInt 2021) = Inr hi"
    and r: "\<forall>y. str_int y \<in> col_name ` set cols \<longrightarrow> lo \<le> y \<and> y \<le> hi"
    by (elim exE conjE) (rule that; assumption)
  from r m have "lo \<le> 2020" "2020 \<le> hi" by (simp_all only:)
  with p u c show ?thesis by - (intro exI conjI; assumption)
qed

text \<open>
  Claim C6. When the table callback returns, the records come in the order
  \<^verbatim>\<open>entry_count\<close>, then the six grade bands from A* to A*-E (the percentage columns, or the
  absolute columns for any other indicator type); the column names are texts, namely
  \<^verbatim>\<open>Indicator\<close> followed by the years rendered with \<^verbatim>\<open>str\<close>, which are also the keys of
  every record, and the id of a column is its name.
\<close>

theorem table_indicator_order:
  assumes "update_table pint df sd ed ind ch subj = Inr (data, cols)"
  shows "map Indicator data =
       ''entry_count'' #
       (if ind = ''percentage''
        then [''perc_astar_grade_achieved'', ''perc_astar_a_grade_achieved'', ''perc_astar_b_grade_achieved'',
              ''perc_astar_c_grade_achieved'', ''perc_astar_d_grade_achieved'', ''perc_astar_e_grade_achieved'']
        else [''abs_astar_grade_grade_achieved'', ''abs_astar_a_grade_achieved'', ''abs_astar_b_grade_achieved'',
              ''abs_astar_c_grade_achieved'', ''abs_astar_d_grade_achieved'', ''abs_astar_e_grade_achieved''])
     \<and> (\<exists>ys. sorted ys \<and> distinct ys \<and> map col_name cols = ''Indicator'' # map str_int ys
            \<and> (\<forall>rec \<in> set data. map fst (cells rec) = map str_int ys))
     \<and> (\<forall>c \<in> set cols. col_id c = col_name c)"
proof -
  from assms obtain lo hi xs where
    d: "data = map (\<lambda>c. \<lparr>Indicator = c,
                cells = map (\<lambda>y. (str_int y, mean_skipna (column_values c (group_rows y (filter (row_matches lo hi ch xs) df)))))
                          (group_keys (filter (row_matches lo hi ch xs) df))\<rparr>)
             (''entry_count'' # (if ind = ''percentage'' then percentage_columns else abs_column_names))"
    and c: "cols = map (\<lambda>c. \<lparr>col_name = c, col_id = c\<rparr>) (''Indicator'' # map str_int (group_keys (filter (row_matches lo hi ch xs) df)))"
    by (rule update_table_Inr)
  let ?ys = "group_keys (filter (row_matches lo hi ch xs) df)"
  have 1: "map Indicator data = ''entry_count'' # (if ind = ''percentage'' then percentage_columns else abs_column_names)"
    unfolding d by (simp add: o_def)
  have 2: "map col_name cols = ''Indicator'' # map str_int ?ys"
    by (simp add: c o_def)
  have 3: "\<forall>rec \<in> set data. map fst (cells rec) = map str_int ?ys"
    unfolding d by (auto simp: o_def)
  have 4: "\<forall>c \<in> set cols. col_id c = col_name c"
    unfolding c by auto
  from 2 3 have "\<exists>ys. sorted ys \<and> distinct ys \<and> map col_name cols = ''Indicator'' # map str_int ys
            \<and> (\<forall>rec \<in> set data. map fst (cells rec) = map str_int ys)"
    using group_keys_sorted [of "filter (row_matches lo hi ch xs) df"]
      group_keys_distinct [of "filter (row_matches lo hi ch xs) df"]
    by - (rule exI [of _ "group_keys (filter (row_matches lo hi ch xs) df)"], intro conjI; assumption)
  with 1 4 show ?thesis
    by (simp add: percentage_columns_def abs_column_names_def)
qed

theorem table_indicator_order_witness:
  "\<exists>data cols. update_table digits_int example_df (AInt 2019) (AInt 2021) ''percentage'' ''All Students''
                      (Many [''Mathematics'']) = Inr (data, cols)
      \<and> map col_name cols = [''Indicator'', ''2019'', ''2020'', ''2021'']
      \<and> map Indicator data =
          [''entry_count'', ''perc_astar_grade_achieved'', ''perc_astar_a_grade_achieved'',
           ''perc_astar_b_grade_achieved'', ''perc_astar_c_grade_achieved'',
           ''perc_astar_d_grade_achieved'', ''perc_astar_e_grade_achieved'']"
proof -
  from example_table obtain data cols where
    u: "update_table digits_int example_df (AInt 2019) (AInt 2021) ''percentage'' ''All Students''
                      (Many [''Mathematics'']) = Inr (data, cols)"
    and c: "map col_name cols = [''Indicator'', ''2019'', ''2020'', ''2021'']"
    by (elim exE conjE) (rule that; assumption)
  from table_indicator_order [OF u]
  have "map Indicator data =
          [''entry_count'', ''perc_astar_grade_achieved'', ''perc_astar_a_grade_achieved'',
           ''perc_astar_b_grade_achieved'', ''perc_astar_c_grade_achieved'',
           ''perc_astar_d_grade_achieved'', ''perc_astar_e_grade_achieved'']"
    by simp
  with u c show ?thesis by - (intro exI conjI; assumption)
qed

lemma py_int_cases:
  "(\<exists>i. py_int pint a = Inr i) \<or> (\<exists>e. py_int pint a = Inl e)"
  by (cases "py_int pint a") auto

lemma update_table_Inl:
  "py_int pint sd = Inl e \<Longrightarrow> update_table pint df sd ed ind ch subj = Inl e"
  "py_int pint sd = Inr lo \<Longrightarrow> py_int pint ed = Inl e \<Longrightarrow> update_table pint df sd ed ind ch subj = Inl e"
  "py_int pint sd = Inr lo \<Longrightarrow> py_int pint ed = Inr hi \<Longrightarrow> update_table pint df sd ed ind ch (One s) = Inl TypeError"
  by (simp_all add: update_table_def filter_rows_def isin_values_def)




section \<open>Facts about the line chart callback\<close>

lemma update_line_chart_eq:
  assumes "py_int pint sd = Inr lo" "py_int pint ed = Inr hi"
  shows "update_line_chart pint df sd ed subj ch =
     Inr \<lparr>fig_data = map (make_trace ch (filter (row_matches lo hi ch (as_list subj)) df)) (as_list subj),
          fig_title = ''Entries Count Over Time for Selected Subjects ('' @ ch @ '')'',
          fig_xaxis_title = ''Year'',
          fig_yaxis_title = ''Entry Count'',
          fig_template = ''plotly_white''\<rparr>"
  using assms by (simp add: update_line_chart_def filter_rows_def isin_values_def Let_def)

lemma update_line_chart_Inr:
  assumes "update_line_chart pint df sd ed subj ch = Inr fig"
  obtains lo hi where "py_int pint sd = Inr lo" "py_int pint ed = Inr hi"
    "fig_data fig = map (make_trace ch (filter (row_matches lo hi ch (as_list subj)) df)) (as_list subj)"
proof -
  from assms obtain lo hi where a: "py_int pint sd = Inr lo" "py_int pint ed = Inr hi"
    by (auto simp: update_line_chart_def filter_rows_def Let_def split: sum.splits)
  from assms have "fig_data fig = map (make_trace ch (filter (row_matches lo hi ch (as_list subj)) df)) (as_list subj)"
    unfolding update_line_chart_eq [OF a] by auto
  with a show thesis by (rule that)
qed

lemma update_line_chart_Inl:
  "py_int pint sd = Inl e \<Longrightarrow> update_line_chart pint df sd ed subj ch = Inl e"
  "py_int pint sd = Inr lo \<Longrightarrow> py_int pint ed = Inl e \<Longrightarrow> update_line_chart pint df sd ed subj ch = Inl e"
  by (simp_all add: update_line_chart_def filter_rows_def Let_def)






lemma make_trace_fields:
  "trace_name (make_trace ch rs s) = s @ '' ('' @ ch @ '')''"
  "trace_type (make_trace ch rs s) = ''line''"
  "trace_x (make_trace ch rs s) = group_keys (filter (\<lambda>r. subject_name r = s) rs)"
  "trace_y (make_trace ch rs s) =
     map (\<lambda>y. sum_entry_count (group_rows y (filter (\<lambda>r. subject_name r = s) rs)))
       (group_keys (filter (\<lambda>r. subject_name r = s) rs))"
  by (simp_all add: make_trace_def Let_def)


lemma example_entries_filter:
  "filter (row_matches 2019 2021 ''All Students'' [''Mathematics'', ''Physics'']) example_entries = example_entries"
  "filter (row_matches 2019 2021 ''All Students'' [''Mathematics'']) example_entries = example_entries"
  by (simp_all add: example_entries_def example_df_def example_row_def row_matches_def)

lemma example_entries_subject:
  "filter (\<lambda>r. subject_name r = ''Mathematics'') example_entries = example_entries"
  "filter (\<lambda>r. subject_name r = ''Physics'') example_entries = []"
  by (simp_all add: example_entries_def example_df_def example_row_def)

lemma example_entries_keys: "group_keys example_entries = [2019, 2020, 2021]"
  by (simp add: example_entries_def example_df_def example_row_def group_keys_def)

lemma example_entries_sums:
  "sum_entry_count (group_rows 2019 example_entries) = 140"
  "sum_entry_count (group_rows 2020 example_entries) = 120"
  "sum_entry_count (group_rows 2021 example_entries) = 110"
  by (simp_all add: example_entries_def example_df_def example_row_def group_rows_def
      sum_entry_count_def)

lemma example_traces:
  "make_trace ''All Students'' example_entries ''Mathematics'' =
     \<lparr>trace_x = [2019, 2020, 2021], trace_y = [140, 120, 110], trace_type = ''line'',
      trace_name = ''Mathematics (All Students)''\<rparr>"
  "make_trace ''All Students'' example_entries ''Physics'' =
     \<lparr>trace_x = [], trace_y = [], trace_type = ''line'', trace_name = ''Physics (All Students)''\<rparr>"
  by (simp_all add: make_trace_def example_entries_subject example_entries_keys example_entries_sums
      group_keys_Nil)

lemma example_years: "py_int digits_int (AInt 2019) = Inr 2019" "py_int digits_int (AInt 2021) = Inr 2021"
  by (simp_all add: py_int_def)


lemma example_chart_returns:
  "\<exists>fig. update_line_chart digits_int example_entries (AInt 2019) (AInt 2021)
       (Many [''Mathematics'', ''Physics'']) ''All Students'' = Inr fig"
  unfolding update_line_chart_eq [OF example_years] by simp

lemma example_no_physics:
  "\<not> (\<exists>r \<in> set example_entries. lo \<le> start_year r \<and> start_year r \<le> hi
        \<and> characteristic_value r = ''All Students''
        \<and> subject_name r = as_list (Many [''Mathematics'', ''Physics'']) ! 1)"
  by (simp add: example_entries_def example_df_def example_row_def as_list_def)











text \<open>
  Claim C9. When the line chart callback returns, the figure holds exactly one series
  per element of the subject list, in the order of the list; the series of a subject
  without a matching row is present and has no point, and an empty list gives no series.
\<close>

theorem line_chart_one_series_per_subject:
  assumes "update_line_chart pint df sd ed subj ch = Inr fig"
  shows "length (fig_data fig) = length (as_list subj)
     \<and> map trace_name (fig_data fig) = map (\<lambda>s. s @ '' ('' @ ch @ '')'') (as_list subj)
     \<and> (\<exists>lo hi. py_int pint sd = Inr lo \<and> py_int pint ed = Inr hi \<and>
          (\<forall>i < length (as_list subj).
             \<not> (\<exists>r \<in> set df. lo \<le> start_year r \<and> start_year r \<le> hi \<and> characteristic_value r = ch
                    \<and> subject_name r = as_list subj ! i)
             \<longrightarrow> trace_x (fig_data fig ! i) = [] \<and> trace_y (fig_data fig ! i) = []))
     \<and> (as_list subj = [] \<longrightarrow> fig_data fig = [])"
proof -
  from assms obtain lo hi where a: "py_int pint sd = Inr lo" "py_int pint ed = Inr hi"
    and d: "fig_data fig = map (make_trace ch (filter (row_matches lo hi ch (as_list subj)) df)) (as_list subj)"
    by (rule update_line_chart_Inr)
  have 1: "length (fig_data fig) = length (as_list subj)" by (simp add: d)
  have 2: "map trace_name (fig_data fig) = map (\<lambda>s. s @ '' ('' @ ch @ '')'') (as_list subj)"
    by (simp add: d o_def make_trace_fields)
  have 3: "\<forall>i < length (as_list subj).
             \<not> (\<exists>r \<in> set df. lo \<le> start_year r \<and> start_year r \<le> hi \<and> characteristic_value r = ch
                    \<and> subject_name r = as_list subj ! i)
             \<longrightarrow> trace_x (fig_data fig ! i) = [] \<and> trace_y (fig_data fig ! i) = []"
  proof (intro allI impI)
    fix i assume i: "i < length (as_list subj)"
      and n: "\<not> (\<exists>r \<in> set df. lo \<le> start_year r \<and> start_year r \<le> hi \<and> characteristic_value r = ch
                    \<and> subject_name r = as_list subj ! i)"
    have "filter (\<lambda>r. subject_name r = as_list subj ! i) (filter (row_matches lo hi ch (as_list subj)) df) = []"
      using n by (auto simp: filter_empty_conv row_matches_def)
    then show "trace_x (fig_data fig ! i) = [] \<and> trace_y (fig_data fig ! i) = []"
      using i by (simp add: d make_trace_fields group_keys_Nil)
  qed
  have 4: "as_list subj = [] \<longrightarrow> fig_data fig = []" by (simp add: d)
  from a 3 have "\<exists>lo hi. py_int pint sd = Inr lo \<and> py_int pint ed = Inr hi \<and>
          (\<forall>i < length (as_list subj).
             \<not> (\<exists>r \<in> set df. lo \<le> start_year r \<and> start_year r \<le> hi \<and> characteristic_value r = ch
                    \<and> subject_name r = as_list subj ! i)
             \<longrightarrow> trace_x (fig_data fig ! i) = [] \<and> trace_y (fig_data fig ! i) = [])"
    by - (rule exI [of _ lo], rule exI [of _ hi], intro conjI; assumption)
  with 1 2 4 show ?thesis by - (intro conjI; assumption)
qed

theorem line_chart_one_series_per_subject_witness:
  "\<exists>fig. update_line_chart digits_int example_entries (AInt 2019) (AInt 2021)
       (Many [''Mathematics'', ''Physics'']) ''All Students'' = Inr fig
     \<and> length (fig_data fig) = 2
     \<and> map trace_name (fig_data fig) = [''Mathematics (All Students)'', ''Physics (All Students)'']
     \<and> trace_x (fig_data fig ! 1) = [] \<and> trace_y (fig_data fig ! 1) = []"
proof -
  from example_chart_returns obtain fig where
    u: "update_line_chart digits_int example_entries (AInt 2019) (AInt 2021)
       (Many [''Mathematics'', ''Physics'']) ''All Students'' = Inr fig" ..
  from line_chart_one_series_per_subject [OF u]
  have l: "length (fig_data fig) = 2"
    "map trace_name (fig_data fig) = [''Mathematics (All Students)'', ''Physics (All Students)'']"
    by (simp_all add: as_list_def)
  from line_chart_one_series_per_subject [OF u] obtain lo hi where
    a: "\<forall>i < length (as_list (Many [''Mathematics'', ''Physics''])).
             \<not> (\<exists>r \<in> set example_entries. lo \<le> start_year r \<and> start_year r \<le> hi
                    \<and> characteristic_value r = ''All Students''
                    \<and> subject_name r = as_list (Many [''Mathematics'', ''Physics'']) ! i)
             \<longrightarrow> trace_x (fig_data fig ! i) = [] \<and> trace_y (fig_data fig ! i) = []"
    by (elim exE conjE) (rule that; assumption)
  have "(1::nat) < length (as_list (Many [''Mathematics'', ''Physics'']))"
    by (simp add: as_list_def)
  with a example_no_physics [of lo hi]
  have d: "trace_x (fig_data fig ! 1) = []" "trace_y (fig_data fig ! 1) = []"
    by blast+
  with u l show ?thesis by - (intro exI conjI; assumption)
qed

text \<open>
  Claim C10. A single subject that is not a list gives the same result as the list of
  that one subject, the other arguments being equal.
\<close>

theorem line_chart_scalar_subject:
  "update_line_chart pint df sd ed (One s) ch = update_line_chart pint df sd ed (Many [s]) ch"
  by (simp add: update_line_chart_def as_list_def)

section \<open>Arguments the callbacks reject\<close>

lemma filter_matches_empty:
  "xs = [] \<or> hi < lo \<Longrightarrow> filter (row_matches lo hi ch xs) df = []"
  by (auto simp: filter_empty_conv row_matches_def)

text \<open>
  Claim C4, as stated, does not hold: the callbacks apply \<^verbatim>\<open>int\<close> to the two year
  arguments without a guard, so a year that \<^verbatim>\<open>int\<close> rejects (null, or a text that is not
  a number) makes both callbacks raise.
\<close>

theorem callbacks_raise_on_bad_year:
  "update_table digits_int example_df ANone (AInt 2021) ''percentage'' ''All Students''
       (Many [''Mathematics'']) = Inl TypeError
   \<and> update_table digits_int example_df (AStr ''abc'') (AInt 2021) ''percentage'' ''All Students''
       (Many [''Mathematics'']) = Inl ValueError
   \<and> update_line_chart digits_int example_df (AInt 2019) ANone (Many [''Mathematics''])
       ''All Students'' = Inl TypeError"
  by (simp add: update_table_def update_line_chart_def filter_rows_def py_int_def
      digits_int_def digit_val_def Let_def)

text \<open>
  Claim C4, amended. When \<^verbatim>\<open>int\<close> accepts the two year arguments, the table callback
  returns for every list of subjects and the line chart callback returns for every
  subject argument. The table always has its seven records; with an empty list of
  subjects or a start year after the end year its only column is \<^verbatim>\<open>Indicator\<close> and the
  records have no cell. The figure has one series per listed subject, none for an empty
  list, and with a start year after the end year no series has a point.
\<close>

theorem callbacks_return_on_integer_years:
  assumes "py_int pint sd = Inr lo" and "py_int pint ed = Inr hi"
  shows "(\<exists>data cols. update_table pint df sd ed ind ch (Many subs) = Inr (data, cols)
           \<and> length data = 7
           \<and> (subs = [] \<or> hi < lo \<longrightarrow>
                cols = [\<lparr>col_name = ''Indicator'', col_id = ''Indicator''\<rparr>]
                \<and> (\<forall>rec \<in> set data. cells rec = [])))
       \<and> (\<exists>fig. update_line_chart pint df sd ed subj ch = Inr fig
           \<and> length (fig_data fig) = length (as_list subj)
           \<and> (as_list subj = [] \<longrightarrow> fig_data fig = [])
           \<and> (hi < lo \<longrightarrow> (\<forall>t \<in> set (fig_data fig). trace_x t = [] \<and> trace_y t = [])))"
proof (rule conjI)
  let ?data = "map (\<lambda>c. \<lparr>Indicator = c,
                cells = map (\<lambda>y. (str_int y, mean_skipna (column_values c (group_rows y (filter (row_matches lo hi ch subs) df)))))
                          (group_keys (filter (row_matches lo hi ch subs) df))\<rparr>)
             (''entry_count'' # (if ind = ''percentage'' then percentage_columns else abs_column_names))"
  let ?cols = "map (\<lambda>c. \<lparr>col_name = c, col_id = c\<rparr>) (''Indicator'' # map str_int (group_keys (filter (row_matches lo hi ch subs) df)))"
  have u: "update_table pint df sd ed ind ch (Many subs) = Inr (?data, ?cols)"
    by (rule update_table_eq [OF assms])
  have l: "length ?data = 7"
    by (simp add: percentage_columns_def abs_column_names_def)
  have e: "subs = [] \<or> hi < lo \<longrightarrow>
                ?cols = [\<lparr>col_name = ''Indicator'', col_id = ''Indicator''\<rparr>]
                \<and> (\<forall>rec \<in> set ?data. cells rec = [])"
  proof
    assume "subs = [] \<or> hi < lo"
    then have "filter (row_matches lo hi ch subs) df = []" by (rule filter_matches_empty)
    then show "?cols = [\<lparr>col_name = ''Indicator'', col_id = ''Indicator''\<rparr>]
                \<and> (\<forall>rec \<in> set ?data. cells rec = [])"
      by (auto simp: group_keys_Nil)
  qed
  show "\<exists>data cols. update_table pint df sd ed ind ch (Many subs) = Inr (data, cols)
           \<and> length data = 7
           \<and> (subs = [] \<or> hi < lo \<longrightarrow>
                cols = [\<lparr>col_name = ''Indicator'', col_id = ''Indicator''\<rparr>]
                \<and> (\<forall>rec \<in> set data. cells rec = []))"
    using u l e by - (rule exI [of _ ?data], rule exI [of _ ?cols], intro conjI; assumption)
next
  let ?fig = "\<lparr>fig_data = map (make_trace ch (filter (row_matches lo hi ch (as_list subj)) df)) (as_list subj),
          fig_title = ''Entries Count Over Time for Selected Subjects ('' @ ch @ '')'',
          fig_xaxis_title = ''Year'',
          fig_yaxis_title = ''Entry Count'',
          fig_template = ''plotly_white''\<rparr>"
  have u: "update_line_chart pint df sd ed subj ch = Inr ?fig"
    by (rule update_line_chart_eq [OF assms])
  have l: "length (fig_data ?fig) = length (as_list subj)" by simp
  have n: "as_list subj = [] \<longrightarrow> fig_data ?fig = []" by simp
  have e: "hi < lo \<longrightarrow> (\<forall>t \<in> set (fig_data ?fig). trace_x t = [] \<and> trace_y t = [])"
  proof
    assume "hi < lo"
    then have "filter (row_matches lo hi ch (as_list subj)) df = []"
      by (simp add: filter_matches_empty)
    then show "\<forall>t \<in> set (fig_data ?fig). trace_x t = [] \<and> trace_y t = []"
      by (auto simp: make_trace_fields group_keys_Nil)
  qed
  show "\<exists>fig. update_line_chart pint df sd ed subj ch = Inr fig
           \<and> length (fig_data fig) = length (as_list subj)
           \<and> (as_list subj = [] \<longrightarrow> fig_data fig = [])
           \<and> (hi < lo \<longrightarrow> (\<forall>t \<in> set (fig_data fig). trace_x t = [] \<and> trace_y t = []))"
    using u l n e by - (rule exI [of _ ?fig], intro conjI; assumption)
qed

theorem callbacks_return_on_integer_years_witness:
  "\<exists>data cols fig. update_table digits_int example_df (AInt 2021) (AInt 2019) ''percentage'' ''All Students''
         (Many [''Mathematics'']) = Inr (data, cols)
     \<and> length data = 7
     \<and> cols = [\<lparr>col_name = ''Indicator'', col_id = ''Indicator''\<rparr>]
     \<and> update_line_chart digits_int example_df (AInt 2021) (AInt 2019) (Many [''Mathematics''])
         ''All Students'' = Inr fig
     \<and> length (fig_data fig) = 1
     \<and> trace_x (fig_data fig ! 0) = [] \<and> trace_y (fig_data fig ! 0) = []"
proof -
  have y: "py_int digits_int (AInt 2021) = Inr 2021" "py_int digits_int (AInt 2019) = Inr 2019"
    by (simp_all add: py_int_def)
  note t = callbacks_return_on_integer_years [OF y, of example_df "''percentage''" "''All Students''"
      "[''Mathematics'']" "Many [''Mathematics'']"]
  from t [THEN conjunct1] obtain data cols where
    u: "update_table digits_int example_df (AInt 2021) (AInt 2019) ''percentage'' ''All Students''
         (Many [''Mathematics'']) = Inr (data, cols)"
    and l: "length data = 7"
    and e: "[''Mathematics''] = [] \<or> (2019::int) < 2021 \<longrightarrow>
                cols = [\<lparr>col_name = ''Indicator'', col_id = ''Indicator''\<rparr>]
                \<and> (\<forall>rec \<in> set data. cells rec = [])"
    by (elim exE conjE) (rule that; assumption)
  from e have c: "cols = [\<lparr>col_name = ''Indicator'', col_id = ''Indicator''\<rparr>]" by simp
  from t [THEN conjunct2] obtain fig where
    v: "update_line_chart digits_int example_df (AInt 2021) (AInt 2019) (Many [''Mathematics''])
         ''All Students'' = Inr fig"
    and k: "length (fig_data fig) = length (as_list (Many [''Mathematics'']))"
    and f: "(2019::int) < 2021 \<longrightarrow> (\<forall>t \<in> set (fig_data fig). trace_x t = [] \<and> trace_y t = [])"
    by (elim exE conjE) (rule that; assumption)
  from k have k1: "length (fig_data fig) = 1" by (simp add: as_list_def)
  then have "fig_data fig ! 0 \<in> set (fig_data fig)" by simp
  with f have x: "trace_x (fig_data fig ! 0) = []" "trace_y (fig_data fig ! 0) = []" by simp_all
  from u l c v k1 x show ?thesis by - (intro exI conjI; assumption)
qed

text \<open>An instance of claim C10 on the example rows.\<close>

theorem line_chart_scalar_subject_witness:
  "\<exists>fig. update_line_chart digits_int example_entries (AInt 2019) (AInt 2021) (One ''Mathematics'')
         ''All Students'' = Inr fig
     \<and> update_line_chart digits_int example_entries (AInt 2019) (AInt 2021) (Many [''Mathematics''])
         ''All Students'' = Inr fig
     \<and> fig_data fig =
         [\<lparr>trace_x = [2019, 2020, 2021], trace_y = [140, 120, 110], trace_type = ''line'',
           trace_name = ''Mathematics (All Students)''\<rparr>]"
proof -
  let ?fig = "\<lparr>fig_data = map (make_trace ''All Students''
                  (filter (row_matches 2019 2021 ''All Students'' (as_list (Many [''Mathematics'']))) example_entries))
                  (as_list (Many [''Mathematics''])),
          fig_title = ''Entries Count Over Time for Selected Subjects ('' @ ''All Students'' @ '')'',
          fig_xaxis_title = ''Year'',
          fig_yaxis_title = ''Entry Count'',
          fig_template = ''plotly_white''\<rparr>"
  have m: "update_line_chart digits_int example_entries (AInt 2019) (AInt 2021) (Many [''Mathematics''])
         ''All Students'' = Inr ?fig"
    by (rule update_line_chart_eq [OF example_years])
  with line_chart_scalar_subject [of digits_int example_entries "AInt 2019" "AInt 2021" "''Mathematics''" "''All Students''"]
  have o: "update_line_chart digits_int example_entries (AInt 2019) (AInt 2021) (One ''Mathematics'')
         ''All Students'' = Inr ?fig"
    by simp
  have d: "fig_data ?fig =
         [\<lparr>trace_x = [2019, 2020, 2021], trace_y = [140, 120, 110], trace_type = ''line'',
           trace_name = ''Mathematics (All Students)''\<rparr>]"
    by (simp add: as_list_def example_entries_filter example_traces)
  from o m d show ?thesis by - (rule exI [of _ ?fig], intro conjI; assumption)
qed

end
